theory Spec2Isabelle
  imports Main
begin

section \<open>Go library functions used by the detectors\<close>

text \<open>
  Go strings are byte sequences; they are modelled as \<open>string\<close> (a list of 8-bit
  characters). The library functions below are the ones the package \<open>linux\<close> calls.
\<close>

subsection \<open>Package strings\<close>

definition HasPrefix :: "string \<Rightarrow> string \<Rightarrow> bool" where
  "HasPrefix s p = (take (length p) s = p)"

text \<open>The six ASCII bytes of \<open>unicode.IsSpace\<close>: tab, line feed, vertical tab, form feed,
  carriage return and space.\<close>

definition asciiSpace :: "char \<Rightarrow> bool" where
  "asciiSpace c = (c = CHR 0x09 \<or> c = CHR 0x0A \<or> c = CHR 0x0B \<or> c = CHR 0x0C \<or> c = CHR 0x0D \<or> c = CHR 0x20)"

text \<open>
  The UTF-8 encodings of the remaining code points of \<open>unicode.IsSpace\<close>: U+0085, U+00A0,
  U+1680, U+2000 to U+200A, U+2028, U+2029, U+202F, U+205F and U+3000.
\<close>

definition unicodeSpaces :: "string list" where
  "unicodeSpaces =
     [[CHR 0xC2, CHR 0x85], [CHR 0xC2, CHR 0xA0], [CHR 0xE1, CHR 0x9A, CHR 0x80],
      [CHR 0xE2, CHR 0x80, CHR 0x80], [CHR 0xE2, CHR 0x80, CHR 0x81], [CHR 0xE2, CHR 0x80, CHR 0x82],
      [CHR 0xE2, CHR 0x80, CHR 0x83], [CHR 0xE2, CHR 0x80, CHR 0x84], [CHR 0xE2, CHR 0x80, CHR 0x85],
      [CHR 0xE2, CHR 0x80, CHR 0x86], [CHR 0xE2, CHR 0x80, CHR 0x87], [CHR 0xE2, CHR 0x80, CHR 0x88],
      [CHR 0xE2, CHR 0x80, CHR 0x89], [CHR 0xE2, CHR 0x80, CHR 0x8A], [CHR 0xE2, CHR 0x80, CHR 0xA8],
      [CHR 0xE2, CHR 0x80, CHR 0xA9], [CHR 0xE2, CHR 0x80, CHR 0xAF], [CHR 0xE2, CHR 0x81, CHR 0x9F],
      [CHR 0xE3, CHR 0x80, CHR 0x80]]"

text \<open>The number of leading bytes of \<open>s\<close> that form one white-space rune (0 when the first
  rune of \<open>s\<close> is not white space).\<close>

definition leadingSpaceLen :: "string \<Rightarrow> nat" where
  "leadingSpaceLen s =
     (case s of [] \<Rightarrow> 0
      | c # _ \<Rightarrow> if asciiSpace c then 1
                 else (case filter (HasPrefix s) unicodeSpaces of [] \<Rightarrow> 0 | u # _ \<Rightarrow> length u))"

definition trailingSpaceLen :: "string \<Rightarrow> nat" where
  "trailingSpaceLen s =
     (case rev s of [] \<Rightarrow> 0
      | c # _ \<Rightarrow> if asciiSpace c then 1
                 else (case filter (\<lambda>u. HasPrefix (rev s) (rev u)) unicodeSpaces of
                         [] \<Rightarrow> 0 | u # _ \<Rightarrow> length u))"

function TrimLeftSpace :: "string \<Rightarrow> string" where
  "TrimLeftSpace s = (if leadingSpaceLen s = 0 then s else TrimLeftSpace (drop (leadingSpaceLen s) s))"
  by pat_completeness auto
termination
proof (relation "measure length")
  show "wf (measure length)" by simp
next
  fix s :: string
  assume "leadingSpaceLen s \<noteq> 0"
  then have "s \<noteq> []" by (auto simp: leadingSpaceLen_def)
  with \<open>leadingSpaceLen s \<noteq> 0\<close> show "(drop (leadingSpaceLen s) s, s) \<in> measure length"
    by (cases s) auto
qed

function TrimRightSpace :: "string \<Rightarrow> string" where
  "TrimRightSpace s =
     (if trailingSpaceLen s = 0 then s
      else TrimRightSpace (take (length s - trailingSpaceLen s) s))"
  by pat_completeness auto
termination
proof (relation "measure length")
  show "wf (measure length)" by simp
next
  fix s :: string
  assume a: "trailingSpaceLen s \<noteq> 0"
  then have "s \<noteq> []" by (auto simp: trailingSpaceLen_def)
  with a show "(take (length s - trailingSpaceLen s) s, s) \<in> measure length"
    by (cases s) auto
qed

declare TrimLeftSpace.simps [simp del] TrimRightSpace.simps [simp del]

text \<open>\<open>strings.TrimSpace\<close>: all leading and trailing white space removed.\<close>

definition TrimSpace :: "string \<Rightarrow> string" where
  "TrimSpace s = TrimRightSpace (TrimLeftSpace s)"

text \<open>\<open>strings.Trim(s, cutset)\<close> for a cutset of one ASCII byte: every leading and every
  trailing occurrence of that byte is removed.\<close>

definition Trim :: "string \<Rightarrow> char \<Rightarrow> string" where
  "Trim s c = rev (dropWhile (\<lambda>x. x = c) (rev (dropWhile (\<lambda>x. x = c) s)))"

text \<open>\<open>strings.SplitN(s, sep, n)\<close> for a separator of one byte and \<open>n \<ge> 0\<close>.\<close>

fun SplitN :: "string \<Rightarrow> char \<Rightarrow> nat \<Rightarrow> string list" where
  "SplitN s sep 0 = []"
| "SplitN s sep (Suc 0) = [s]"
| "SplitN s sep (Suc (Suc n)) =
     (if sep \<in> set s
      then takeWhile (\<lambda>c. c \<noteq> sep) s # SplitN (tl (dropWhile (\<lambda>c. c \<noteq> sep) s)) sep (Suc n)
      else [s])"

text \<open>\<open>strings.ToLower\<close> on ASCII letters; bytes outside \<open>A\<close> to \<open>Z\<close> are kept (the Unicode
  case tables for non-ASCII letters are not modelled).\<close>

definition lowerByte :: "char \<Rightarrow> char" where
  "lowerByte c =
     (if (65::nat) \<le> of_char c \<and> (of_char c :: nat) \<le> 90 then char_of ((of_char c :: nat) + 32) else c)"

definition ToLower :: "string \<Rightarrow> string" where
  "ToLower s = map lowerByte s"

subsection \<open>Package regexp\<close>

text \<open>
  The character classes of the patterns: \<open>\s\<close> is \<open>[\t\n\f\r ]\<close>, \<open>\S\<close> its complement,
  \<open>.\<close> every character but the line feed, \<open>[\S ]\<close>, \<open>[0-9.]\<close>, and a literal character.
\<close>

datatype cclass = WhiteSp | NonWhiteSp | NonWhiteOrBlank | AnyChar | DigitOrDot | Lit char

definition reSpace :: "char \<Rightarrow> bool" where
  "reSpace c = (c = CHR 0x09 \<or> c = CHR 0x0A \<or> c = CHR 0x0C \<or> c = CHR 0x0D \<or> c = CHR 0x20)"

definition isDigit :: "char \<Rightarrow> bool" where
  "isDigit c = ((48::nat) \<le> of_char c \<and> (of_char c :: nat) \<le> 57)"

fun inClass :: "cclass \<Rightarrow> char \<Rightarrow> bool" where
  "inClass WhiteSp c = reSpace c"
| "inClass NonWhiteSp c = (\<not> reSpace c)"
| "inClass NonWhiteOrBlank c = (\<not> reSpace c \<or> c = CHR 0x20)"
| "inClass AnyChar c = (c \<noteq> CHR 0x0A)"
| "inClass DigitOrDot c = (isDigit c \<or> c = CHR ''.'')"
| "inClass (Lit l) c = (c = l)"

text \<open>
  A pattern is a sequence of items: one character of a class, a greedy \<open>*\<close> or \<open>+\<close> over a
  class, a numbered capture group, a greedy \<open>?\<close>, and an alternation. \<open>EndGrp n start\<close> is
  the bookkeeping item that closes group \<open>n\<close> opened at offset \<open>start\<close>; it never occurs
  in a compiled pattern.
\<close>

datatype re = Cls cclass | Star cclass | Plus cclass
  | Grp nat "re list" | Opt "re list" | Alt "re list" "re list" | EndGrp nat nat

type_synonym captures = "nat \<rightharpoonup> nat \<times> nat"

fun weight :: "re \<Rightarrow> nat" where
  "weight (Cls k) = 1"
| "weight (Star k) = 1"
| "weight (Plus k) = 3"
| "weight (Grp n sub) = 2 + sum_list (map weight sub)"
| "weight (Opt sub) = 1 + sum_list (map weight sub)"
| "weight (Alt a b) = 1 + sum_list (map weight a) + sum_list (map weight b)"
| "weight (EndGrp n st) = 1"

text \<open>
  The backtracking search of the package (leftmost-first, as Perl): \<open>rmatch rs s p c\<close>
  matches the items \<open>rs\<close> against \<open>s\<close>, the input from offset \<open>p\<close> on, and returns the end
  offset and the captures of the first match that the search finds. A greedy operator
  tries the longer match first and falls back when the rest of the pattern fails.
\<close>

function (sequential) rmatch :: "re list \<Rightarrow> string \<Rightarrow> nat \<Rightarrow> captures \<Rightarrow> (nat \<times> captures) option" where
  "rmatch [] s p c = Some (p, c)"
| "rmatch (Cls k # rs) [] p c = None"
| "rmatch (Cls k # rs) (x # xs) p c = (if inClass k x then rmatch rs xs (Suc p) c else None)"
| "rmatch (Star k # rs) [] p c = rmatch rs [] p c"
| "rmatch (Star k # rs) (x # xs) p c =
     (if inClass k x
      then (case rmatch (Star k # rs) xs (Suc p) c of
              Some r \<Rightarrow> Some r
            | None \<Rightarrow> rmatch rs (x # xs) p c)
      else rmatch rs (x # xs) p c)"
| "rmatch (Plus k # rs) s p c = rmatch (Cls k # Star k # rs) s p c"
| "rmatch (Grp n sub # rs) s p c = rmatch (sub @ EndGrp n p # rs) s p c"
| "rmatch (EndGrp n st # rs) s p c = rmatch rs s p (c(n \<mapsto> (st, p)))"
| "rmatch (Opt sub # rs) s p c =
     (case rmatch (sub @ rs) s p c of Some r \<Rightarrow> Some r | None \<Rightarrow> rmatch rs s p c)"
| "rmatch (Alt a b # rs) s p c =
     (case rmatch (a @ rs) s p c of Some r \<Rightarrow> Some r | None \<Rightarrow> rmatch (b @ rs) s p c)"
  by pat_completeness auto
termination
  by (relation "inv_image (less_than <*lex*> less_than)
        (\<lambda>(rs, s, p, c). (length s, sum_list (map weight rs)))") auto

text \<open>A compiled pattern: whether it starts with \<open>^\<close>, its items, and its number of groups.\<close>

record Regexp =
  anchored :: bool
  items :: "re list"
  numGroups :: nat

text \<open>The search for the leftmost match: the start offsets are tried in increasing order.\<close>

fun rsearch :: "re list \<Rightarrow> string \<Rightarrow> nat \<Rightarrow> (nat \<times> nat \<times> captures) option" where
  "rsearch rs [] p = (case rmatch rs [] p Map.empty of Some (e, c) \<Rightarrow> Some (p, e, c) | None \<Rightarrow> None)"
| "rsearch rs (x # xs) p =
     (case rmatch rs (x # xs) p Map.empty of
        Some (e, c) \<Rightarrow> Some (p, e, c)
      | None \<Rightarrow> rsearch rs xs (Suc p))"

definition slice :: "string \<Rightarrow> nat \<Rightarrow> nat \<Rightarrow> string" where
  "slice s a b = take (b - a) (drop a s)"

definition groupText :: "string \<Rightarrow> captures \<Rightarrow> nat \<Rightarrow> string" where
  "groupText s c n = (case c n of None \<Rightarrow> [] | Some (a, b) \<Rightarrow> slice s a b)"

text \<open>
  \<open>FindStringSubmatch\<close>: the empty list is the nil slice of no match; otherwise the text of
  the match followed by the text of each group (empty for a group that took no part).
\<close>

definition FindStringSubmatch :: "Regexp \<Rightarrow> string \<Rightarrow> string list" where
  "FindStringSubmatch re s =
     (case (if anchored re
            then (case rmatch (items re) s 0 Map.empty of
                    Some (e, c) \<Rightarrow> Some (0, e, c) | None \<Rightarrow> None)
            else rsearch (items re) s 0) of
        None \<Rightarrow> []
      | Some (b, e, c) \<Rightarrow> slice s b e # map (groupText s c) [1..<Suc (numGroups re)])"

definition lits :: "string \<Rightarrow> re list" where
  "lits s = map (\<lambda>c. Cls (Lit c)) s"

subsection \<open>Package bufio\<close>

text \<open>
  \<open>bufio.Scanner\<close> with the default split function \<open>ScanLines\<close>: the input is cut at
  every line feed, a last line without line feed counts when it is not empty, and one
  trailing carriage return is dropped from each line. A line of \<open>MaxScanTokenSize\<close> bytes
  or more does not fit the buffer: the scanner stops there with \<open>ErrTooLong\<close>.
\<close>

fun linesAcc :: "string \<Rightarrow> string \<Rightarrow> string list" where
  "linesAcc [] cur = (if cur = [] then [] else [cur])"
| "linesAcc (x # xs) cur = (if x = CHR 0x0A then cur # linesAcc xs [] else linesAcc xs (cur @ [x]))"

definition dropCR :: "string \<Rightarrow> string" where
  "dropCR l = (if l \<noteq> [] \<and> last l = CHR 0x0D then butlast l else l)"

definition MaxScanTokenSize :: nat where
  "MaxScanTokenSize = 65536"

fun scanTokens :: "string list \<Rightarrow> string list \<times> bool" where
  "scanTokens [] = ([], False)"
| "scanTokens (l # ls) =
     (if MaxScanTokenSize \<le> length l then ([], True)
      else (case scanTokens ls of (ts, e) \<Rightarrow> (dropCR l # ts, e)))"

text \<open>The lines that \<open>scanner.Scan()\<close> delivers, and whether \<open>scanner.Err()\<close> is set.\<close>

definition ScanLines :: "string \<Rightarrow> string list \<times> bool" where
  "ScanLines contents = scanTokens (linesAcc contents [])"

section \<open>Package linux: data model and parsers\<close>

text \<open>\<open>ReleaseDetails\<close> is \<open>map[string]string\<close>; indexing a missing key gives the empty string.\<close>

type_synonym ReleaseDetails = "string \<rightharpoonup> string"

definition lookup :: "ReleaseDetails \<Rightarrow> string \<Rightarrow> string" where
  "lookup m k = (case m k of None \<Rightarrow> [] | Some v \<Rightarrow> v)"

record LinuxDistro =
  Name :: string
  ID :: string
  Version :: string
  LsbRelease :: ReleaseDetails
  OsRelease :: ReleaseDetails

text \<open>The zero value \<open>LinuxDistro{}\<close>.\<close>

definition zeroDistro :: LinuxDistro where
  "zeroDistro = \<lparr>Name = [], ID = [], Version = [], LsbRelease = Map.empty, OsRelease = Map.empty\<rparr>"

text \<open>A run-time panic of the Go program: an index expression out of range.\<close>

datatype panic = IndexOutOfRange

definition index :: "'a list \<Rightarrow> nat \<Rightarrow> panic + 'a" where
  "index xs i = (if i < length xs then Inr (xs ! i) else Inl IndexOutOfRange)"

text \<open>
  The file system as the File Resolver sees it. For each path: \<open>Absent\<close> when \<open>os.Stat\<close>
  fails or the path is a directory, \<open>Unopenable\<close> when \<open>os.Open\<close> fails, \<open>Failing bs\<close> when
  reading delivers the bytes \<open>bs\<close> and then an error other than \<open>io.EOF\<close>, and
  \<open>Regular bs\<close> for a readable file of contents \<open>bs\<close>. The root is \<open>/\<close>.
\<close>

datatype fnode = Absent | Unopenable | Failing string | Regular string

type_synonym filesystem = "string \<Rightarrow> fnode"

datatype opened = NoCandidate | OpenError string | Reader fnode string

fun readBinaryFileFunc :: "filesystem \<Rightarrow> string list \<Rightarrow> opened" where
  "readBinaryFileFunc fs [] = NoCandidate"
| "readBinaryFileFunc fs (filePath # filePaths) =
     (case fs filePath of
        Absent \<Rightarrow> readBinaryFileFunc fs filePaths
      | Unopenable \<Rightarrow> OpenError filePath
      | node \<Rightarrow> Reader node filePath)"

definition readFileFunc :: "filesystem \<Rightarrow> string list \<Rightarrow> bool \<times> string" where
  "readFileFunc fs filePaths =
     (case readBinaryFileFunc fs filePaths of
        Reader (Regular contents) filePath \<Rightarrow> (True, contents)
      | _ \<Rightarrow> (False, []))"

text \<open>\<open>equalsSplitter\<close> is \<open>^\s*(\S+)\s*=\s*([\S ]+)\s*\<close>.\<close>

definition equalsSplitter :: Regexp where
  "equalsSplitter = \<lparr>anchored = True,
     items = [Star WhiteSp, Grp 1 [Plus NonWhiteSp], Star WhiteSp, Cls (Lit (CHR ''='')),
              Star WhiteSp, Grp 2 [Plus NonWhiteOrBlank], Star WhiteSp],
     numGroups = 2\<rparr>"

text \<open>\<open>releaseSplitter\<close> is \<open>^(.+) (release|version)? (\S+)\s*(\S+)?\<close>.\<close>

definition releaseSplitter :: Regexp where
  "releaseSplitter = \<lparr>anchored = True,
     items = [Grp 1 [Plus AnyChar], Cls (Lit (CHR 0x20)),
              Opt [Grp 2 [Alt (lits ''release'') (lits ''version'')]], Cls (Lit (CHR 0x20)),
              Grp 3 [Plus NonWhiteSp], Star WhiteSp, Opt [Grp 4 [Plus NonWhiteSp]]],
     numGroups = 4\<rparr>"

datatype splitError = BlankLine | CommentedLine | NoSplittableCharacter | UnexpectedMatches

definition splitEqualsKeyVal :: "string \<Rightarrow> splitError + string \<times> string" where
  "splitEqualsKeyVal line =
     (if line = [] then Inl BlankLine
      else if hd line = CHR ''#'' then Inl CommentedLine
      else (let match = FindStringSubmatch equalsSplitter line in
            if length match = 0 then Inl NoSplittableCharacter
            else if length match \<noteq> 3 then Inl UnexpectedMatches
            else (let withoutTrailingWhitespace = TrimSpace (match ! 2);
                      withoutEnclosingQuotes = Trim withoutTrailingWhitespace (CHR 0x22)
                  in Inr (match ! 1, withoutEnclosingQuotes))))"

fun parseLines :: "string list \<Rightarrow> ReleaseDetails \<Rightarrow> ReleaseDetails" where
  "parseLines [] properties = properties"
| "parseLines (line # ls) properties =
     (case splitEqualsKeyVal line of
        Inl splitErr \<Rightarrow> parseLines ls properties
      | Inr (key, val) \<Rightarrow> parseLines ls (properties(key \<mapsto> val)))"

text \<open>\<open>parseOSRelease\<close> on a reader over \<open>contents\<close>; the flag is \<open>scanner.Err() != nil\<close>.\<close>

definition parseOSRelease :: "string \<Rightarrow> ReleaseDetails \<times> bool" where
  "parseOSRelease contents =
     (case ScanLines contents of (ls, err) \<Rightarrow> (parseLines ls Map.empty, err))"

text \<open>\<open>matches[0]\<close> is evaluated before any length check: on no match it panics.\<close>

definition parseRedhatReleaseContents :: "string \<Rightarrow> string \<Rightarrow> panic + bool \<times> string" where
  "parseRedhatReleaseContents contents expectedDistro =
     (let matches = FindStringSubmatch releaseSplitter contents in
      case index matches 0 of
        Inl e \<Rightarrow> Inl e
      | Inr m0 \<Rightarrow>
          if \<not> HasPrefix m0 expectedDistro then Inr (False, [])
          else Inr (True, if 3 < length matches then TrimSpace (matches ! 3) else ''unknown''))"

section \<open>The detectors\<close>

text \<open>
  A detector reads the file system through \<open>readFileFunc\<close> and returns its match flag and
  record, or panics. \<open>found\<close> builds the record literal that every positive return writes out;
  \<open>notFound\<close> is \<open>return false, LinuxDistro{}\<close>.
\<close>

type_synonym detected = "panic + bool \<times> LinuxDistro"

type_synonym detector = "filesystem \<Rightarrow> ReleaseDetails \<Rightarrow> ReleaseDetails \<Rightarrow> detected"

definition found :: "string \<Rightarrow> string \<Rightarrow> string \<Rightarrow> ReleaseDetails \<Rightarrow> ReleaseDetails \<Rightarrow> detected" where
  "found name ident version lsbProperties osReleaseProperties =
     Inr (True, \<lparr>Name = name, ID = ident, Version = version,
                 LsbRelease = lsbProperties, OsRelease = osReleaseProperties\<rparr>)"

definition notFound :: detected where
  "notFound = Inr (False, zeroDistro)"

definition IsAlpine :: detector where
  "IsAlpine fs lsbProperties osReleaseProperties =
     (if lookup osReleaseProperties ''ID'' = ''alpine''
      then found ''Alpine Linux'' ''alpine'' (lookup osReleaseProperties ''VERSION_ID'')
             lsbProperties osReleaseProperties
      else (case readFileFunc fs [''/etc/alpine-release''] of
              (exists, content) \<Rightarrow>
                if exists
                then found ''Alpine Linux'' ''alpine'' (TrimSpace content) lsbProperties osReleaseProperties
                else notFound))"

definition IsAlt :: detector where
  "IsAlt fs lsbProperties osReleaseProperties =
     (if lookup osReleaseProperties ''ID'' = ''altlinux''
      then found ''ALT Starterkit'' ''altlinux'' (lookup osReleaseProperties ''VERSION_ID'')
             lsbProperties osReleaseProperties
      else notFound)"

definition IsAmazonLinux :: detector where
  "IsAmazonLinux fs lsbProperties osReleaseProperties =
     (if lookup osReleaseProperties ''ID'' \<noteq> ''amzn'' then notFound
      else found ''Amazon Linux'' ''amzn'' (lookup osReleaseProperties ''VERSION_ID'')
             lsbProperties osReleaseProperties)"

definition IsAndroid :: detector where
  "IsAndroid fs lsbProperties osReleaseProperties =
     (case readFileFunc fs [''/system/build.prop''] of
        (exists, contents) \<Rightarrow>
          if exists
          then (case parseOSRelease contents of
                  (releaseInfo, err) \<Rightarrow>
                    found ''Android'' ''android''
                      (if \<not> err
                       then (if lookup releaseInfo ''ro.com.google.gmsversion'' \<noteq> []
                             then lookup releaseInfo ''ro.com.google.gmsversion''
                             else if lookup releaseInfo ''ro.build.version.release'' \<noteq> []
                             then lookup releaseInfo ''ro.build.version.release''
                             else ''unknown'')
                       else ''unknown'')
                      lsbProperties osReleaseProperties)
          else notFound)"

definition IsArchLinux :: detector where
  "IsArchLinux fs lsbProperties osReleaseProperties =
     (if lookup osReleaseProperties ''ID'' \<noteq> ''arch'' then notFound
      else found ''Arch Linux'' ''arch'' ''rolling'' lsbProperties osReleaseProperties)"

subsection \<open>The BusyBox scan\<close>

text \<open>
  The variables of the scanning loop of \<open>IsBusyBox\<close> (\<open>position\<close> is only counted, never
  read, and is left out; \<open>scanVersion\<close> is the variable \<open>version\<close>).
\<close>

record scanState =
  matchedPos :: nat
  foundBusyBox :: bool
  foundVersion :: bool
  scanVersion :: string

definition searchBytes :: string where
  "searchBytes = ''BusyBox v''"

definition searchBytesSize :: nat where
  "searchBytesSize = length searchBytes"

text \<open>
  The inner loop \<open>for i := 0; matchedPos < searchBytesSize && i < n-1; i++\<close> over the
  bytes \<open>buf[0]\<close> to \<open>buf[n-2]\<close> of one read; a \<open>break\<close> returns the state at once.
\<close>

fun scanBuf :: "string \<Rightarrow> scanState \<Rightarrow> scanState" where
  "scanBuf [] st = st"
| "scanBuf (b # bs) st =
     (if \<not> matchedPos st < searchBytesSize then st
      else if foundBusyBox st
      then (if isDigit b \<or> b = CHR ''.'' then scanBuf bs (st\<lparr>scanVersion := scanVersion st @ [b]\<rparr>)
            else if length (scanVersion st) < 6
            then scanBuf bs (st\<lparr>foundBusyBox := False, matchedPos := 0\<rparr>)
            else st\<lparr>foundVersion := True\<rparr>)
      else if b = searchBytes ! matchedPos st
      then (if matchedPos st + 1 = searchBytesSize then scanBuf bs (st\<lparr>foundBusyBox := True\<rparr>)
            else scanBuf bs (st\<lparr>matchedPos := matchedPos st + 1\<rparr>))
      else st)"

text \<open>The reads of \<open>reader.Read(buf)\<close> with a buffer of \<open>searchBytesSize + 5\<close> bytes: each
  delivers the next bytes of the file, as many as fit.\<close>

function chunks :: "nat \<Rightarrow> string \<Rightarrow> string list" where
  "chunks k s = (if k = 0 \<or> s = [] then [] else take k s # chunks k (drop k s))"
  by pat_completeness auto
termination
  by (relation "measure (\<lambda>(k, s). length s)") auto

declare chunks.simps [simp del]

text \<open>
  The outer loop over the reads. \<open>readErr\<close> tells whether the read after the last chunk
  fails with an error other than \<open>io.EOF\<close>; then the detector returns no match.
\<close>

fun scanReads :: "string list \<Rightarrow> bool \<Rightarrow> scanState \<Rightarrow> scanState option" where
  "scanReads [] readErr st = (if readErr then None else Some st)"
| "scanReads (buf # bufs) readErr st =
     (let st' = scanBuf (butlast buf) st in
      if foundBusyBox st' \<and> foundVersion st' then Some st' else scanReads bufs readErr st')"

definition initialScan :: scanState where
  "initialScan = \<lparr>matchedPos = 0, foundBusyBox = False, foundVersion = False, scanVersion = []\<rparr>"

definition IsBusyBox :: detector where
  "IsBusyBox fs lsbProperties osReleaseProperties =
     (case readFileFunc fs [''/etc/os-release'', ''/etc/lsb-release''] of
        (exists, _) \<Rightarrow>
          if exists then notFound
          else (case readBinaryFileFunc fs [''/bin/true''] of
                  Reader node filePath \<Rightarrow>
                    (case scanReads
                            (chunks (searchBytesSize + 5)
                               (case node of Regular bs \<Rightarrow> bs | Failing bs \<Rightarrow> bs | _ \<Rightarrow> []))
                            (case node of Regular bs \<Rightarrow> False | _ \<Rightarrow> True)
                            initialScan of
                       None \<Rightarrow> notFound
                     | Some st \<Rightarrow>
                         if \<not> foundBusyBox st then notFound
                         else found ''BusyBox'' ''busybox'' (''v'' @ scanVersion st)
                                lsbProperties osReleaseProperties)
                | _ \<Rightarrow> notFound))"

subsection \<open>The Red Hat family\<close>

definition IsOracleLinux :: detector where
  "IsOracleLinux fs lsbProperties osReleaseProperties =
     (if lookup osReleaseProperties ''ID'' = ''ol'' \<and> lookup osReleaseProperties ''VERSION_ID'' \<noteq> []
      then found ''Oracle Linux'' ''ol'' (lookup osReleaseProperties ''VERSION_ID'')
             lsbProperties osReleaseProperties
      else (case readFileFunc fs [''/etc/oracle-release''] of
              (exists, contents) \<Rightarrow>
                if exists
                then (case parseRedhatReleaseContents contents ''Oracle Linux'' of
                        Inl e \<Rightarrow> Inl e
                      | Inr (matched, version) \<Rightarrow>
                          if matched
                          then found ''Oracle Linux'' ''ol'' version lsbProperties osReleaseProperties
                          else notFound)
                else notFound))"

text \<open>The tail that the release-file detectors share: read the first candidate that
  resolves, parse it with \<open>parseRedhatReleaseContents\<close>, and build the record on a match.\<close>

definition releaseFileCheck ::
  "filesystem \<Rightarrow> string list \<Rightarrow> string \<Rightarrow> string \<Rightarrow> string \<Rightarrow> ReleaseDetails \<Rightarrow> ReleaseDetails \<Rightarrow> detected" where
  "releaseFileCheck fs paths expectedDistro name ident lsbProperties osReleaseProperties =
     (case readFileFunc fs paths of
        (exists, contents) \<Rightarrow>
          if exists
          then (case parseRedhatReleaseContents contents expectedDistro of
                  Inl e \<Rightarrow> Inl e
                | Inr (matched, version) \<Rightarrow>
                    if matched then found name ident version lsbProperties osReleaseProperties
                    else notFound)
          else notFound)"

definition IsCentOS :: detector where
  "IsCentOS fs lsbProperties osReleaseProperties =
     (case IsOracleLinux fs lsbProperties osReleaseProperties of
        Inl e \<Rightarrow> Inl e
      | Inr (imOracle, distro) \<Rightarrow>
          if imOracle then Inr (imOracle, distro)
          else releaseFileCheck fs [''/etc/centos-release'', ''/etc/redhat-release'']
                 ''CentOS'' ''CentOS Linux'' ''centos'' lsbProperties osReleaseProperties)"

definition IsFedora :: detector where
  "IsFedora fs lsbProperties osReleaseProperties =
     (if lookup osReleaseProperties ''ID'' = ''fedora''
      then found ''Fedora'' ''fedora'' (lookup osReleaseProperties ''VERSION_ID'')
             lsbProperties osReleaseProperties
      else (case IsOracleLinux fs lsbProperties osReleaseProperties of
              Inl e \<Rightarrow> Inl e
            | Inr (imOracle, distro) \<Rightarrow>
                if imOracle then Inr (imOracle, distro)
                else releaseFileCheck fs [''/etc/redhat-release'']
                       ''Fedora'' ''Fedora'' ''fedora'' lsbProperties osReleaseProperties))"

definition IsRHEL :: detector where
  "IsRHEL fs lsbProperties osReleaseProperties =
     (if lookup osReleaseProperties ''ID'' = ''rhel'' \<and> lookup osReleaseProperties ''VERSION_ID'' \<noteq> []
      then found ''Red Hat Enterprise Linux'' ''rhel'' (lookup osReleaseProperties ''VERSION_ID'')
             lsbProperties osReleaseProperties
      else (case IsOracleLinux fs lsbProperties osReleaseProperties of
              Inl e \<Rightarrow> Inl e
            | Inr (imOracle, distro) \<Rightarrow>
                if imOracle then Inr (imOracle, distro)
                else releaseFileCheck fs [''/etc/redhat-release'', ''/etc/redhat-version'']
                       ''Red Hat Enterprise Linux'' ''Red Hat Enterprise Linux'' ''rhel''
                       lsbProperties osReleaseProperties))"

definition IsScientificLinux :: detector where
  "IsScientificLinux fs lsbProperties osReleaseProperties =
     (case IsOracleLinux fs lsbProperties osReleaseProperties of
        Inl e \<Rightarrow> Inl e
      | Inr (imOracle, distro) \<Rightarrow>
          if imOracle then Inr (imOracle, distro)
          else releaseFileCheck fs [''/etc/sl-release'', ''/etc/redhat-release'']
                 ''Scientific Linux'' ''Scientific Linux'' ''scientific''
                 lsbProperties osReleaseProperties)"

definition IsPhoton :: detector where
  "IsPhoton fs lsbProperties osReleaseProperties =
     (if lookup osReleaseProperties ''ID'' = ''photon'' \<and> lookup osReleaseProperties ''VERSION_ID'' \<noteq> []
      then found ''VMware Photon'' ''photon'' (lookup osReleaseProperties ''VERSION_ID'')
             lsbProperties osReleaseProperties
      else releaseFileCheck fs [''/etc/photon-release'']
             ''VMware Photon Linux'' ''VMware Photon'' ''photon'' lsbProperties osReleaseProperties)"

definition IsYellowDog :: detector where
  "IsYellowDog fs lsbProperties osReleaseProperties =
     releaseFileCheck fs [''/etc/yellowdog-release'']
       ''Yellow Dog Linux'' ''Yellow Dog Linux'' ''yellow-dog'' lsbProperties osReleaseProperties"

definition IsGentoo :: detector where
  "IsGentoo fs lsbProperties osReleaseProperties =
     (if lookup osReleaseProperties ''ID'' = ''gentoo''
      then (case readFileFunc fs [''/etc/gentoo-release''] of
              (exists, contents) \<Rightarrow>
                if exists
                then (case parseRedhatReleaseContents contents ''Gentoo'' of
                        Inl e \<Rightarrow> Inl e
                      | Inr (match, baseSystemVersion) \<Rightarrow>
                          found ''Gentoo'' ''gentoo''
                            (if match then baseSystemVersion else ''unknown'')
                            lsbProperties osReleaseProperties)
                else found ''Gentoo'' ''gentoo'' ''unknown'' lsbProperties osReleaseProperties)
      else notFound)"

subsection \<open>The other detectors\<close>

definition IsClearLinux :: detector where
  "IsClearLinux fs lsbProperties osReleaseProperties =
     (if lookup osReleaseProperties ''ID'' = ''clear-linux-os''
      then found ''Clear Linux OS'' ''clear-linux-os'' (lookup osReleaseProperties ''VERSION_ID'')
             lsbProperties osReleaseProperties
      else notFound)"

text \<open>The scanning loop of \<open>IsCrux\<close> and \<open>IsSourceMage\<close>: the first line that is neither
  empty nor a comment and that the pattern matches gives the version.\<close>

fun scanForVersion :: "Regexp \<Rightarrow> string list \<Rightarrow> string" where
  "scanForVersion rex [] = ''unknown''"
| "scanForVersion rex (line # ls) =
     (if line = [] \<or> HasPrefix line ''#'' then scanForVersion rex ls
      else (let matches = FindStringSubmatch rex line in
            if length matches = 2 then matches ! 1 else scanForVersion rex ls))"

text \<open>The pattern \<open>\s*echo "CRUX version ([0-9.]+)"\s*\<close>.\<close>

definition cruxRex :: Regexp where
  "cruxRex = \<lparr>anchored = False,
     items = [Star WhiteSp] @ lits (''echo '' @ [CHR 0x22] @ ''CRUX version'' @ [CHR 0x20])
             @ [Grp 1 [Plus DigitOrDot], Cls (Lit (CHR 0x22)), Star WhiteSp],
     numGroups = 1\<rparr>"

definition IsCrux :: detector where
  "IsCrux fs lsbProperties osReleaseProperties =
     (case readFileFunc fs [''/usr/bin/crux''] of
        (exists, contents) \<Rightarrow>
          if exists
          then found ''CRUX'' ''crux'' (scanForVersion cruxRex (fst (ScanLines contents)))
                 lsbProperties osReleaseProperties
          else notFound)"

text \<open>The pattern \<open>(\S+)-([0-9.]+)\<close>.\<close>

definition mxRex :: Regexp where
  "mxRex = \<lparr>anchored = False,
     items = [Grp 1 [Plus NonWhiteSp], Cls (Lit (CHR ''-'')), Grp 2 [Plus DigitOrDot]],
     numGroups = 2\<rparr>"

definition IsMXLinux :: detector where
  "IsMXLinux fs lsbProperties osReleaseProperties =
     (if lookup lsbProperties ''DISTRIB_ID'' = ''MX''
      then found ''MX Linux'' ''mx'' (lookup lsbProperties ''DISTRIB_RELEASE'')
             lsbProperties osReleaseProperties
      else (case readFileFunc fs [''/etc/mx-version''] of
              (exists, content) \<Rightarrow>
                if exists
                then (let match = FindStringSubmatch mxRex content in
                      if length match = 3 \<and> match ! 1 = ''MX''
                      then found ''MX Linux'' ''mx'' (match ! 2) lsbProperties osReleaseProperties
                      else notFound)
                else notFound))"

definition IsDebian :: detector where
  "IsDebian fs lsbProperties osReleaseProperties =
     (case IsMXLinux fs lsbProperties osReleaseProperties of
        Inl e \<Rightarrow> Inl e
      | Inr (iamMx, distro) \<Rightarrow>
          if iamMx then Inr (iamMx, distro)
          else (case readFileFunc fs [''/etc/debian_version''] of
                  (debianVersionExists, versionContents) \<Rightarrow>
                    if \<not> debianVersionExists then notFound
                    else (case readFileFunc fs [''/etc/issue''] of
                            (issueExists, issueContents) \<Rightarrow>
                              if issueExists \<and> \<not> HasPrefix issueContents ''Debian'' then notFound
                              else if lookup osReleaseProperties ''ID'' \<noteq> ''debian''
                                      \<and> lookup osReleaseProperties ''ID'' \<noteq> []
                              then notFound
                              else found ''Debian GNU/Linux'' ''debian'' (TrimSpace versionContents)
                                     lsbProperties osReleaseProperties)))"

definition IsKali :: detector where
  "IsKali fs lsbProperties osReleaseProperties =
     (if lookup osReleaseProperties ''ID'' = ''kali''
      then found ''Kali GNU/Linux'' ''kali'' (lookup osReleaseProperties ''VERSION_ID'')
             lsbProperties osReleaseProperties
      else notFound)"

text \<open>The tail that \<open>IsOpenSuSE\<close>, \<open>IsSLES\<close> and \<open>IsNovellOES\<close> share: the marker file must start
  with the name; its \<open>VERSION\<close> line, parsed as a key and a value, gives the version.\<close>

definition markerFileCheck ::
  "filesystem \<Rightarrow> string list \<Rightarrow> string \<Rightarrow> string \<Rightarrow> string \<Rightarrow> ReleaseDetails \<Rightarrow> ReleaseDetails \<Rightarrow> detected" where
  "markerFileCheck fs paths namePrefix name ident lsbProperties osReleaseProperties =
     (case readFileFunc fs paths of
        (exists, contents) \<Rightarrow>
          if exists \<and> HasPrefix contents namePrefix
          then (case parseOSRelease contents of
                  (releaseDetails, err) \<Rightarrow>
                    found name ident (if \<not> err then lookup releaseDetails ''VERSION'' else ''unknown'')
                      lsbProperties osReleaseProperties)
          else notFound)"

definition IsOpenSuSE :: detector where
  "IsOpenSuSE fs lsbProperties osReleaseProperties =
     (if lookup osReleaseProperties ''ID'' = ''opensuse''
      then found ''openSUSE'' ''opensuse'' (lookup osReleaseProperties ''VERSION_ID'')
             lsbProperties osReleaseProperties
      else markerFileCheck fs [''/etc/SuSE-release''] ''openSUSE'' ''openSUSE'' ''opensuse''
             lsbProperties osReleaseProperties)"

definition IsSLES :: detector where
  "IsSLES fs lsbProperties osReleaseProperties =
     (if lookup osReleaseProperties ''ID'' = ''sles''
      then found ''SUSE Linux'' ''sles'' (lookup osReleaseProperties ''VERSION_ID'')
             lsbProperties osReleaseProperties
      else markerFileCheck fs [''/etc/SuSE-release'', ''/etc/sles-release''] ''SUSE Linux''
             ''SUSE Linux'' ''sles'' lsbProperties osReleaseProperties)"

definition IsNovellOES :: detector where
  "IsNovellOES fs lsbProperties osReleaseProperties =
     markerFileCheck fs [''/etc/novell-release''] ''Novell Open Enterprise Server''
       ''Novell Open Enterprise Server'' ''oes'' lsbProperties osReleaseProperties"

definition IsPuppy :: detector where
  "IsPuppy fs lsbProperties osReleaseProperties =
     (if lookup lsbProperties ''DISTRIB_ID'' \<noteq> ''Puppy'' then notFound
      else found ''Puppy Linux'' ''puppy'' (lookup osReleaseProperties ''VERSION_ID'')
             lsbProperties osReleaseProperties)"

definition IsMageia :: detector where
  "IsMageia fs lsbProperties osReleaseProperties =
     (if lookup osReleaseProperties ''ID'' = ''mageia''
      then found ''Mageia'' ''mageia'' (lookup osReleaseProperties ''VERSION'')
             lsbProperties osReleaseProperties
      else notFound)"

definition IsMint :: detector where
  "IsMint fs lsbProperties osReleaseProperties =
     (if lookup lsbProperties ''DISTRIB_ID'' \<noteq> ''LinuxMint'' then notFound
      else found ''Linux Mint'' ''linuxmint'' (lookup lsbProperties ''DISTRIB_RELEASE'')
             lsbProperties osReleaseProperties)"

definition IsNixOS :: detector where
  "IsNixOS fs lsbProperties osReleaseProperties =
     (if lookup osReleaseProperties ''ID'' = ''nixos''
      then found ''NixOS'' ''nixos'' (lookup osReleaseProperties ''VERSION_ID'')
             lsbProperties osReleaseProperties
      else notFound)"

definition IsRancherOS :: detector where
  "IsRancherOS fs lsbProperties osReleaseProperties =
     (if lookup osReleaseProperties ''ID'' = ''rancheros''
      then found ''RancherOS'' ''rancheros'' (lookup osReleaseProperties ''VERSION_ID'')
             lsbProperties osReleaseProperties
      else notFound)"

definition IsSlackware :: detector where
  "IsSlackware fs lsbProperties osReleaseProperties =
     (if lookup osReleaseProperties ''ID'' = ''slackware'' \<and> lookup osReleaseProperties ''VERSION_ID'' \<noteq> []
      then found ''Slackware'' ''slackware'' (lookup osReleaseProperties ''VERSION_ID'')
             lsbProperties osReleaseProperties
      else (case readFileFunc fs [''/etc/slackware-version''] of
              (exists, contents) \<Rightarrow>
                if exists
                then (if \<not> HasPrefix contents ''Slackware'' then notFound
                      else (let segments = SplitN (TrimSpace contents) (CHR 0x20) 2 in
                            found ''Slackware'' ''slackware''
                              (if length segments = 2 then segments ! 1 else ''unknown'')
                              lsbProperties osReleaseProperties))
                else notFound))"

text \<open>The pattern \<open>.*\((.+)\).*\<close>.\<close>

definition sourceMageRex :: Regexp where
  "sourceMageRex = \<lparr>anchored = False,
     items = [Star AnyChar, Cls (Lit (CHR ''('')), Grp 1 [Plus AnyChar], Cls (Lit (CHR '')'')),
              Star AnyChar],
     numGroups = 1\<rparr>"

definition IsSourceMage :: detector where
  "IsSourceMage fs lsbProperties osReleaseProperties =
     (case readFileFunc fs [''/etc/sourcemage-release''] of
        (exists, contents) \<Rightarrow>
          if exists
          then found ''Source Mage GNU/Linux'' ''sourcemage''
                 (scanForVersion sourceMageRex (fst (ScanLines contents)))
                 lsbProperties osReleaseProperties
          else notFound)"

definition IsUbuntu :: detector where
  "IsUbuntu fs lsbProperties osReleaseProperties =
     (if lookup lsbProperties ''DISTRIB_ID'' \<noteq> ''Ubuntu'' then notFound
      else found ''Ubuntu'' ''ubuntu'' (lookup lsbProperties ''DISTRIB_RELEASE'')
             lsbProperties osReleaseProperties)"

section \<open>The classifier\<close>

definition DistroTests :: "detector list" where
  "DistroTests =
     [IsCentOS, IsRHEL, IsUbuntu, IsDebian, IsAmazonLinux, IsFedora, IsOpenSuSE, IsSLES,
      IsOracleLinux, IsPhoton, IsAlpine, IsArchLinux, IsGentoo, IsKali, IsScientificLinux,
      IsSlackware, IsMageia, IsClearLinux, IsMint, IsMXLinux, IsNovellOES, IsPuppy, IsRancherOS,
      IsAlt, IsCrux, IsSourceMage, IsAndroid, IsYellowDog, IsBusyBox]"

definition BestGuess :: "ReleaseDetails \<Rightarrow> ReleaseDetails \<Rightarrow> LinuxDistro" where
  "BestGuess lsbProperties osReleaseProperties =
     \<lparr>Name =
        (if lookup osReleaseProperties ''NAME'' \<noteq> [] then lookup osReleaseProperties ''NAME''
         else if lookup osReleaseProperties ''PRETTY_NAME'' \<noteq> []
         then hd (SplitN (lookup osReleaseProperties ''PRETTY_NAME'') (CHR 0x20) 2)
         else if lookup lsbProperties ''DISTRIB_ID'' \<noteq> [] then lookup lsbProperties ''DISTRIB_ID''
         else if lookup osReleaseProperties ''ID'' \<noteq> [] then lookup osReleaseProperties ''ID''
         else ''Unknown''),
      ID =
        (if lookup osReleaseProperties ''ID'' \<noteq> [] then lookup osReleaseProperties ''ID''
         else if lookup lsbProperties ''DISTRIB_ID'' \<noteq> []
         then ToLower (lookup lsbProperties ''DISTRIB_ID'')
         else ''unknown''),
      Version =
        (if lookup osReleaseProperties ''VERSION_ID'' \<noteq> [] then lookup osReleaseProperties ''VERSION_ID''
         else if lookup lsbProperties ''DISTRIB_RELEASE'' \<noteq> []
         then lookup lsbProperties ''DISTRIB_RELEASE''
         else if lookup osReleaseProperties ''VERSION'' \<noteq> []
         then hd (SplitN (lookup osReleaseProperties ''VERSION'') (CHR 0x20) 2)
         else ''unknown''),
      LsbRelease = lsbProperties,
      OsRelease = osReleaseProperties\<rparr>"

text \<open>
  The loop \<open>for _, distroTest := range DistroTests\<close>, over the tests from index \<open>i\<close> on. It
  carries \<open>wasDetected\<close> and \<open>detectedDistro\<close>, and returns with them the indices of the
  tests it called, in the order of the calls. A panic of a test ends the run.
\<close>

fun runDistroTests ::
  "detector list \<Rightarrow> nat \<Rightarrow> filesystem \<Rightarrow> ReleaseDetails \<Rightarrow> ReleaseDetails \<Rightarrow> bool \<times> LinuxDistro
     \<Rightarrow> nat list \<times> detected" where
  "runDistroTests [] i fs lsbProperties osReleaseProperties st = ([], Inr st)"
| "runDistroTests (distroTest # rest) i fs lsbProperties osReleaseProperties st =
     (case distroTest fs lsbProperties osReleaseProperties of
        Inl e \<Rightarrow> ([i], Inl e)
      | Inr (wasDetected, detectedDistro) \<Rightarrow>
          if wasDetected then ([i], Inr (wasDetected, detectedDistro))
          else (case runDistroTests rest (Suc i) fs lsbProperties osReleaseProperties
                       (wasDetected, detectedDistro) of
                  (called, r) \<Rightarrow> (i # called, r)))"

text \<open>
  \<open>discoverDistroFromProperties\<close> over a list of tests (\<open>DistroTests\<close> is a package variable,
  which the test suite of the package shuffles), with the indices of the tests called.
\<close>

definition classify ::
  "detector list \<Rightarrow> filesystem \<Rightarrow> ReleaseDetails \<Rightarrow> ReleaseDetails \<Rightarrow> nat list \<times> (panic + LinuxDistro)" where
  "classify tests fs lsbProperties osReleaseProperties =
     (case runDistroTests tests 0 fs lsbProperties osReleaseProperties (False, zeroDistro) of
        (called, Inl e) \<Rightarrow> (called, Inl e)
      | (called, Inr (wasDetected, detectedDistro)) \<Rightarrow>
          (called, Inr (if \<not> wasDetected then BestGuess lsbProperties osReleaseProperties
                        else detectedDistro)))"

definition discoverDistroFromProperties ::
  "filesystem \<Rightarrow> ReleaseDetails \<Rightarrow> ReleaseDetails \<Rightarrow> panic + LinuxDistro" where
  "discoverDistroFromProperties fs lsbProperties osReleaseProperties =
     snd (classify DistroTests fs lsbProperties osReleaseProperties)"


section \<open>Concrete inputs and reference definitions\<close>

text \<open>A file system on which no path resolves, and the empty property map.\<close>

definition noFiles :: filesystem where
  "noFiles = (\<lambda>p. Absent)"

definition noProps :: ReleaseDetails where
  "noProps = Map.empty"

definition LF :: char where
  "LF = CHR 0x0A"

definition TAB :: char where
  "TAB = CHR 0x09"

definition DQ :: char where
  "DQ = CHR 0x22"

text \<open>A detector's verdict is a non-match when it returns with the flag \<open>false\<close>.\<close>

definition noMatch :: "detected \<Rightarrow> bool" where
  "noMatch r = (case r of Inl e \<Rightarrow> False | Inr (wasDetected, d) \<Rightarrow> \<not> wasDetected)"

text \<open>None of the tests matches: each one returns, with the flag \<open>false\<close>.\<close>

definition noneMatches ::
  "detector list \<Rightarrow> filesystem \<Rightarrow> ReleaseDetails \<Rightarrow> ReleaseDetails \<Rightarrow> bool" where
  "noneMatches tests fs lsbProperties osReleaseProperties =
     list_all (\<lambda>t. noMatch (t fs lsbProperties osReleaseProperties)) tests"


text \<open>The first non-empty string of a list (empty when there is none).\<close>

fun firstNonEmpty :: "string list \<Rightarrow> string" where
  "firstNonEmpty [] = []"
| "firstNonEmpty (x # xs) = (if x \<noteq> [] then x else firstNonEmpty xs)"

text \<open>The specification's reading of the fallback Name: the first non-empty of the
  os-release \<open>NAME\<close>, the first white-space-delimited token of \<open>PRETTY_NAME\<close>, the LSB
  \<open>DISTRIB_ID\<close>, the os-release \<open>ID\<close>, and \<open>Unknown\<close>.\<close>

definition firstWhitespaceToken :: "string \<Rightarrow> string" where
  "firstWhitespaceToken s = takeWhile (\<lambda>c. \<not> asciiSpace c) (dropWhile asciiSpace s)"

definition specFallbackName :: "ReleaseDetails \<Rightarrow> ReleaseDetails \<Rightarrow> string" where
  "specFallbackName lsbProperties osReleaseProperties =
     firstNonEmpty [lookup osReleaseProperties ''NAME'',
                    firstWhitespaceToken (lookup osReleaseProperties ''PRETTY_NAME''),
                    lookup lsbProperties ''DISTRIB_ID'',
                    lookup osReleaseProperties ''ID'',
                    ''Unknown'']"

text \<open>The text of a string before its first space character.\<close>

definition textBeforeSpace :: "string \<Rightarrow> string" where
  "textBeforeSpace s = takeWhile (\<lambda>c. c \<noteq> CHR 0x20) s"

text \<open>The specification's reading of the quote stripping of the Key-Value Parser: one
  matching pair of surrounding double quotes is removed, and nothing else.\<close>

definition stripOnePair :: "string \<Rightarrow> string" where
  "stripOnePair v =
     (if 2 \<le> length v \<and> hd v = CHR 0x22 \<and> last v = CHR 0x22 then butlast (tl v) else v)"


text \<open>A lower bound on the number of space characters in any text that a pattern
  matches: the literal spaces that every match has to go through.\<close>

fun minSpaces :: "re \<Rightarrow> nat" and minSpacesList :: "re list \<Rightarrow> nat" where
  "minSpaces (Cls k) = (if k = Lit (CHR 0x20) then 1 else 0)"
| "minSpaces (Star k) = 0"
| "minSpaces (Plus k) = (if k = Lit (CHR 0x20) then 1 else 0)"
| "minSpaces (Grp n sub) = minSpacesList sub"
| "minSpaces (Opt sub) = 0"
| "minSpaces (Alt a b) = min (minSpacesList a) (minSpacesList b)"
| "minSpaces (EndGrp n st) = 0"
| "minSpacesList [] = 0"
| "minSpacesList (r # rs) = minSpaces r + minSpacesList rs"


text \<open>The items of \<open>equalsSplitter\<close> that follow the equals sign.\<close>

definition afterEquals :: "re list" where
  "afterEquals = [Star WhiteSp, Grp 2 [Plus NonWhiteOrBlank], Star WhiteSp]"

text \<open>A value with no double quote at either end, and a value that is bare or enclosed in
  exactly one pair of double quotes.\<close>

definition bareValue :: "string \<Rightarrow> bool" where
  "bareValue x = (x = [] \<or> (hd x \<noteq> CHR 0x22 \<and> last x \<noteq> CHR 0x22))"

definition atMostOnePair :: "string \<Rightarrow> bool" where
  "atMostOnePair x =
     (bareValue x \<or>
      (2 \<le> length x \<and> hd x = CHR 0x22 \<and> last x = CHR 0x22 \<and> bareValue (butlast (tl x))))"


section \<open>Properties\<close>

lemmas detector_defs = IsCentOS_def IsRHEL_def IsUbuntu_def IsDebian_def IsAmazonLinux_def
  IsFedora_def IsOpenSuSE_def IsSLES_def IsOracleLinux_def IsPhoton_def IsAlpine_def
  IsArchLinux_def IsGentoo_def IsKali_def IsScientificLinux_def IsSlackware_def IsMageia_def
  IsClearLinux_def IsMint_def IsMXLinux_def IsNovellOES_def IsPuppy_def IsRancherOS_def
  IsAlt_def IsCrux_def IsSourceMage_def IsAndroid_def IsYellowDog_def IsBusyBox_def
  releaseFileCheck_def markerFileCheck_def readFileFunc_def lookup_def found_def notFound_def

lemmas input_defs = noFiles_def noProps_def LF_def TAB_def DQ_def

lemmas classifier_defs = discoverDistroFromProperties_def classify_def DistroTests_def

lemmas trim_defs = TrimSpace_def TrimLeftSpace.simps TrimRightSpace.simps leadingSpaceLen_def
  trailingSpaceLen_def asciiSpace_def unicodeSpaces_def HasPrefix_def Trim_def

lemmas regex_defs = FindStringSubmatch_def releaseSplitter_def equalsSplitter_def lits_def
  reSpace_def slice_def groupText_def upt_rec

subsection \<open>Library facts\<close>

lemma SplitN_2:
  "SplitN s sep 2 =
     (if sep \<in> set s then [takeWhile (\<lambda>c. c \<noteq> sep) s, tl (dropWhile (\<lambda>c. c \<noteq> sep) s)] else [s])"
  by (simp add: numeral_2_eq_2)

lemma hd_SplitN_2: "hd (SplitN s sep 2) = takeWhile (\<lambda>c. c \<noteq> sep) s"
proof (cases "sep \<in> set s")
  case True
  then show ?thesis by (simp add: SplitN_2)
next
  case False
  then have "takeWhile (\<lambda>c. c \<noteq> sep) s = s"
    by (intro takeWhile_eq_all_conv [THEN iffD2]) auto
  moreover from False have "SplitN s sep 2 = [s]" by (simp add: SplitN_2)
  ultimately show ?thesis by (simp only: list.sel)
qed

subsection \<open>Evaluations of the classifier\<close>

text \<open>
  C10. Some inputs give a record whose Version is the empty string, not \<open>unknown\<close>: with
  the os-release map \<open>ID = alpine\<close> and no \<open>VERSION_ID\<close>, an empty LSB map and no marker
  file, the classifier returns the Alpine record with an empty Version.
\<close>

theorem alpine_version_empty:
  "discoverDistroFromProperties noFiles noProps (noProps(''ID'' \<mapsto> ''alpine'')) =
     Inr \<lparr>Name = ''Alpine Linux'', ID = ''alpine'', Version = [],
          LsbRelease = noProps, OsRelease = noProps(''ID'' \<mapsto> ''alpine'')\<rparr>"
  by (simp add: classifier_defs detector_defs input_defs)

text \<open>
  C3. The classifier can fault. With empty maps and an empty file \<open>/etc/redhat-release\<close>,
  \<open>IsCentOS\<close> passes the contents to \<open>parseRedhatReleaseContents\<close>, the pattern does not
  match, and \<open>matches[0]\<close> panics with an index out of range: no record is returned.
\<close>

theorem empty_release_file_panics:
  "discoverDistroFromProperties (noFiles(''/etc/redhat-release'' := Regular [])) noProps noProps =
     Inl IndexOutOfRange"
  by (simp add: classifier_defs detector_defs input_defs parseRedhatReleaseContents_def
      FindStringSubmatch_def releaseSplitter_def index_def)

text \<open>
  C6. The classifier can return an empty Name. The os-release line \<open>PRETTY_NAME=" Foo"\<close>
  parses to a value that starts with a space. With an os-release map that has only this
  entry, no detector matches and \<open>BestGuess\<close> takes the text before the first space of
  \<open>PRETTY_NAME\<close>, which is empty.
\<close>

theorem pretty_name_leading_space_empty_name:
  "parseOSRelease (''PRETTY_NAME='' @ [DQ] @ '' Foo'' @ [DQ] @ [LF]) =
     (noProps(''PRETTY_NAME'' \<mapsto> '' Foo''), False)
   \<and> discoverDistroFromProperties noFiles noProps (noProps(''PRETTY_NAME'' \<mapsto> '' Foo'')) =
     Inr \<lparr>Name = [], ID = ''unknown'', Version = ''unknown'',
          LsbRelease = noProps, OsRelease = noProps(''PRETTY_NAME'' \<mapsto> '' Foo'')\<rparr>"
  by (simp add: classifier_defs detector_defs input_defs BestGuess_def hd_SplitN_2
      parseOSRelease_def ScanLines_def MaxScanTokenSize_def dropCR_def splitEqualsKeyVal_def
      regex_defs trim_defs)

lemma chunks_Cons: "chunks k (x # xs) = (if k = 0 then [] else take k (x # xs) # chunks k (drop k (x # xs)))"
  by (subst chunks.simps) simp

lemma chunks_Nil: "chunks k [] = []"
  by (subst chunks.simps) simp


text \<open>
  C4. The scan of \<open>/bin/true\<close> misreads the banner. The inner loop stops at \<open>i < n-1\<close>, so
  the last byte of every read is skipped, and a mismatch leaves the read without resetting
  \<open>matchedPos\<close>. With no release file at all and \<open>/bin/true\<close> holding \<open>BusyBox v1.32.0\<close> and a
  line feed, the classifier returns Version \<open>v1.320\<close>; a file that does not contain
  \<open>BusyBox v\<close> is reported as BusyBox; a file that contains the banner after one other
  byte is not.
\<close>

theorem busybox_scan_misreads:
  "discoverDistroFromProperties (noFiles(''/bin/true'' := Regular (''BusyBox v1.32.0'' @ [LF])))
      noProps noProps =
     Inr \<lparr>Name = ''BusyBox'', ID = ''busybox'', Version = ''v1.320'',
          LsbRelease = noProps, OsRelease = noProps\<rparr>
   \<and> IsBusyBox (noFiles(''/bin/true'' := Regular ''BusyBzzzzzzzzzox vZ'')) noProps noProps =
     Inr (True, \<lparr>Name = ''BusyBox'', ID = ''busybox'', Version = ''v'',
          LsbRelease = noProps, OsRelease = noProps\<rparr>)
   \<and> IsBusyBox (noFiles(''/bin/true'' := Regular (''#BusyBox v1.32.0'' @ [LF]))) noProps noProps =
     Inr (False, zeroDistro)"
  by (simp add: classifier_defs detector_defs input_defs chunks_Cons chunks_Nil searchBytesSize_def
      searchBytes_def initialScan_def isDigit_def)

subsection \<open>The scan over the tests\<close>

lemma upt_Cons_eq: "k # [Suc k..<Suc (k + n)] = [k..<Suc (k + n)]"
  by (subst (2) upt_rec) simp

lemma noMatch_iff: "noMatch r \<longleftrightarrow> (\<exists>z. r = Inr (False, z))"
  by (auto simp: noMatch_def split: sum.splits)

lemma runDistroTests_first:
  assumes "i < length ts"
    and "(ts ! i) fs lsb os = Inr (True, d)"
    and "noneMatches (take i ts) fs lsb os"
  shows "runDistroTests ts k fs lsb os st = ([k..<Suc (k + i)], Inr (True, d))"
  using assms
proof (induction ts arbitrary: i k st)
  case Nil
  then show ?case by simp
next
  case (Cons t ts)
  show ?case
  proof (cases i)
    case 0
    with Cons.prems show ?thesis by simp
  next
    case (Suc i')
    from Cons.prems Suc obtain z where z: "t fs lsb os = Inr (False, z)"
      by (auto simp: noneMatches_def noMatch_iff)
    have "runDistroTests ts (Suc k) fs lsb os (False, z) = ([Suc k..<Suc (Suc k + i')], Inr (True, d))"
      using Cons.prems Suc by (intro Cons.IH) (auto simp: noneMatches_def)
    with z have "runDistroTests (t # ts) k fs lsb os st = (k # [Suc k..<Suc (k + Suc i')], Inr (True, d))"
      by simp
    with Suc show ?thesis by (simp only: upt_Cons_eq)
  qed
qed

lemma runDistroTests_none:
  assumes "noneMatches ts fs lsb os"
  shows "\<exists>z. runDistroTests ts k fs lsb os (False, z0) = ([k..<k + length ts], Inr (False, z))"
  using assms
proof (induction ts arbitrary: k z0)
  case Nil
  then show ?case by simp
next
  case (Cons t ts)
  from Cons.prems obtain z where z: "t fs lsb os = Inr (False, z)"
    by (auto simp: noneMatches_def noMatch_iff)
  have "\<exists>z'. runDistroTests ts (Suc k) fs lsb os (False, z) = ([Suc k..<Suc k + length ts], Inr (False, z'))"
    using Cons.prems by (intro Cons.IH) (auto simp: noneMatches_def)
  then obtain z' where "runDistroTests ts (Suc k) fs lsb os (False, z) = ([Suc k..<Suc k + length ts], Inr (False, z'))"
    by blast
  with z have "runDistroTests (t # ts) k fs lsb os (False, z0) = (k # [Suc k..<Suc (k + length ts)], Inr (False, z'))"
    by simp
  then have "runDistroTests (t # ts) k fs lsb os (False, z0) = ([k..<Suc (k + length ts)], Inr (False, z'))"
    by (simp only: upt_Cons_eq)
  then show ?case by simp
qed

lemma runDistroTests_called:
  "\<exists>n\<le>length ts. fst (runDistroTests ts k fs lsb os st) = [k..<k + n]"
proof (induction ts arbitrary: k st)
  case Nil
  then show ?case by simp
next
  case (Cons t ts)
  show ?case
  proof (cases "t fs lsb os")
    case (Inl e)
    then have "fst (runDistroTests (t # ts) k fs lsb os st) = [k..<k + 1]" by simp
    then show ?thesis by (intro exI [of _ 1]) simp
  next
    case (Inr wd)
    obtain w d where wd: "wd = (w, d)" by (cases wd)
    show ?thesis
    proof (cases w)
      case True
      with Inr wd have "fst (runDistroTests (t # ts) k fs lsb os st) = [k..<k + 1]" by simp
      then show ?thesis by (intro exI [of _ 1]) simp
    next
      case False
      from Cons.IH [of "Suc k" "(w, d)"] obtain n where
        n: "n \<le> length ts" "fst (runDistroTests ts (Suc k) fs lsb os (w, d)) = [Suc k..<Suc k + n]"
        by blast
      from n(2) Inr wd False have "fst (runDistroTests (t # ts) k fs lsb os st) = k # [Suc k..<Suc (k + n)]"
        by (cases "runDistroTests ts (Suc k) fs lsb os (False, d)") simp
      then have "fst (runDistroTests (t # ts) k fs lsb os st) = [k..<k + Suc n]"
        by (simp only: upt_Cons_eq add_Suc_right)
      with n(1) show ?thesis by (intro exI [of _ "Suc n"]) simp
    qed
  qed
qed

text \<open>
  C2. The tests are scanned in the order of \<open>DistroTests\<close>, from \<open>IsCentOS\<close> to \<open>IsBusyBox\<close>.
  The tests called are always an initial segment of the list, each called once. When the
  test at index \<open>i\<close> returns a match and every test before it returns a non-match, the
  result is the record of test \<open>i\<close> and the tests called are exactly those of index
  \<open>0\<close> to \<open>i\<close>. When every test returns a non-match, the result is the record of
  \<open>BestGuess\<close> and every test has been called.
\<close>

theorem classifier_first_match:
  "hd DistroTests = IsCentOS \<and> last DistroTests = IsBusyBox
   \<and> (\<exists>n\<le>length DistroTests. fst (classify DistroTests fs lsb os) = [0..<n])
   \<and> (\<forall>i d. i < length DistroTests \<and> (DistroTests ! i) fs lsb os = Inr (True, d)
              \<and> noneMatches (take i DistroTests) fs lsb os
          \<longrightarrow> discoverDistroFromProperties fs lsb os = Inr d
              \<and> fst (classify DistroTests fs lsb os) = [0..<Suc i])
   \<and> (noneMatches DistroTests fs lsb os
          \<longrightarrow> discoverDistroFromProperties fs lsb os = Inr (BestGuess lsb os)
              \<and> fst (classify DistroTests fs lsb os) = [0..<length DistroTests])"
proof (intro conjI allI impI)
  show "hd DistroTests = IsCentOS" by (simp add: DistroTests_def)
  show "last DistroTests = IsBusyBox" by (simp add: DistroTests_def)
  from runDistroTests_called [of DistroTests 0 fs lsb os "(False, zeroDistro)"]
  show "\<exists>n\<le>length DistroTests. fst (classify DistroTests fs lsb os) = [0..<n]"
    by (auto simp: classify_def split: prod.splits sum.splits)
next
  fix i d
  assume a: "i < length DistroTests \<and> (DistroTests ! i) fs lsb os = Inr (True, d)
              \<and> noneMatches (take i DistroTests) fs lsb os"
  then have r: "runDistroTests DistroTests 0 fs lsb os (False, zeroDistro) = ([0..<Suc (0 + i)], Inr (True, d))"
    by (intro runDistroTests_first) auto
  then show "discoverDistroFromProperties fs lsb os = Inr d"
    by (simp add: discoverDistroFromProperties_def classify_def)
  from r show "fst (classify DistroTests fs lsb os) = [0..<Suc i]"
    by (simp add: classify_def)
next
  assume a: "noneMatches DistroTests fs lsb os"
  from runDistroTests_none [OF a, of 0 zeroDistro] obtain z where
    r: "runDistroTests DistroTests 0 fs lsb os (False, zeroDistro) = ([0..<0 + length DistroTests], Inr (False, z))"
    by blast
  then show "discoverDistroFromProperties fs lsb os = Inr (BestGuess lsb os)"
    by (simp add: discoverDistroFromProperties_def classify_def)
  from r show "fst (classify DistroTests fs lsb os) = [0..<length DistroTests]"
    by (simp add: classify_def)
qed

theorem classifier_first_match_witness:
  "discoverDistroFromProperties noFiles (noProps(''DISTRIB_ID'' \<mapsto> ''Ubuntu'', ''DISTRIB_RELEASE'' \<mapsto> ''5.10'')) noProps =
     Inr \<lparr>Name = ''Ubuntu'', ID = ''ubuntu'', Version = ''5.10'',
          LsbRelease = noProps(''DISTRIB_ID'' \<mapsto> ''Ubuntu'', ''DISTRIB_RELEASE'' \<mapsto> ''5.10''), OsRelease = noProps\<rparr>
   \<and> fst (classify DistroTests noFiles (noProps(''DISTRIB_ID'' \<mapsto> ''Ubuntu'', ''DISTRIB_RELEASE'' \<mapsto> ''5.10'')) noProps) = [0, 1, 2]
   \<and> discoverDistroFromProperties noFiles noProps (noProps(''ID'' \<mapsto> ''exotic-os'')) =
       Inr \<lparr>Name = ''exotic-os'', ID = ''exotic-os'', Version = ''unknown'',
          LsbRelease = noProps, OsRelease = noProps(''ID'' \<mapsto> ''exotic-os'')\<rparr>
   \<and> length (fst (classify DistroTests noFiles noProps (noProps(''ID'' \<mapsto> ''exotic-os'')))) = 29"
proof -
  let ?lsb = "noProps(''DISTRIB_ID'' \<mapsto> ''Ubuntu'', ''DISTRIB_RELEASE'' \<mapsto> ''5.10'')"
  let ?d = "\<lparr>Name = ''Ubuntu'', ID = ''ubuntu'', Version = ''5.10'', LsbRelease = ?lsb, OsRelease = noProps\<rparr>"
  have h1: "2 < length DistroTests \<and> (DistroTests ! 2) noFiles ?lsb noProps = Inr (True, ?d)
      \<and> noneMatches (take 2 DistroTests) noFiles ?lsb noProps"
    by (simp add: DistroTests_def noneMatches_def noMatch_def detector_defs input_defs)
  have h2: "noneMatches DistroTests noFiles noProps (noProps(''ID'' \<mapsto> ''exotic-os''))"
    by (simp add: DistroTests_def noneMatches_def noMatch_def detector_defs input_defs zeroDistro_def)
  have l: "length DistroTests = 29" by (simp add: DistroTests_def)
  from classifier_first_match [of noFiles ?lsb noProps] h1
  have "discoverDistroFromProperties noFiles ?lsb noProps = Inr ?d
      \<and> fst (classify DistroTests noFiles ?lsb noProps) = [0..<Suc 2]" by blast
  moreover from classifier_first_match [of noFiles noProps "noProps(''ID'' \<mapsto> ''exotic-os'')"] h2
  have "discoverDistroFromProperties noFiles noProps (noProps(''ID'' \<mapsto> ''exotic-os'')) = Inr (BestGuess noProps (noProps(''ID'' \<mapsto> ''exotic-os'')))
      \<and> fst (classify DistroTests noFiles noProps (noProps(''ID'' \<mapsto> ''exotic-os''))) = [0..<length DistroTests]" by blast
  ultimately show ?thesis
    by (simp add: l BestGuess_def lookup_def noProps_def upt_rec)
qed


subsection \<open>The maps of the result\<close>

lemma copies_Oracle: "IsOracleLinux fs lsb os = Inr (True, d) \<Longrightarrow> LsbRelease d = lsb \<and> OsRelease d = os"
  by (auto simp: IsOracleLinux_def found_def notFound_def split: if_splits prod.splits sum.splits)

lemma copies_MX: "IsMXLinux fs lsb os = Inr (True, d) \<Longrightarrow> LsbRelease d = lsb \<and> OsRelease d = os"
  by (auto simp: IsMXLinux_def found_def notFound_def Let_def split: if_splits prod.splits sum.splits)

lemma copies_releaseFileCheck:
  "releaseFileCheck fs ps e n i lsb os = Inr (True, d) \<Longrightarrow> LsbRelease d = lsb \<and> OsRelease d = os"
  by (auto simp: releaseFileCheck_def found_def notFound_def split: if_splits prod.splits sum.splits)

lemma copies_markerFileCheck:
  "markerFileCheck fs ps e n i lsb os = Inr (True, d) \<Longrightarrow> LsbRelease d = lsb \<and> OsRelease d = os"
  by (auto simp: markerFileCheck_def found_def notFound_def split: if_splits prod.splits sum.splits)

lemma copies_DistroTests:
  "t \<in> set DistroTests \<Longrightarrow> t fs lsb os = Inr (True, d) \<Longrightarrow> LsbRelease d = lsb \<and> OsRelease d = os"
  unfolding DistroTests_def
  apply (simp only: set_simps insert_iff empty_iff)
  apply (elim disjE)
  apply (auto simp: IsCentOS_def IsRHEL_def IsUbuntu_def IsDebian_def IsAmazonLinux_def
      IsFedora_def IsOpenSuSE_def IsSLES_def IsPhoton_def IsAlpine_def IsArchLinux_def
      IsGentoo_def IsKali_def IsScientificLinux_def IsSlackware_def IsMageia_def
      IsClearLinux_def IsMint_def IsNovellOES_def IsPuppy_def IsRancherOS_def IsAlt_def
      IsCrux_def IsSourceMage_def IsAndroid_def IsYellowDog_def IsBusyBox_def found_def
      notFound_def Let_def
      dest: copies_Oracle copies_MX copies_releaseFileCheck copies_markerFileCheck
      split: if_splits prod.splits sum.splits option.splits opened.splits)
  done

lemma runDistroTests_match_source:
  "runDistroTests ts k fs lsb os st = (called, Inr (True, d)) \<Longrightarrow>
     (\<exists>t\<in>set ts. t fs lsb os = Inr (True, d)) \<or> st = (True, d)"
proof (induction ts arbitrary: k st called)
  case Nil
  then show ?case by simp
next
  case (Cons t ts)
  show ?case
  proof (cases "t fs lsb os")
    case (Inl e)
    with Cons.prems show ?thesis by simp
  next
    case (Inr wd)
    obtain w d' where wd: "wd = (w, d')" by (cases wd)
    show ?thesis
    proof (cases w)
      case True
      with Inr wd Cons.prems show ?thesis by simp
    next
      case False
      with Inr wd Cons.prems obtain called' where
        "runDistroTests ts (Suc k) fs lsb os (False, d') = (called', Inr (True, d))"
        by (auto split: prod.splits)
      from Cons.IH [OF this] show ?thesis by auto
    qed
  qed
qed

text \<open>
  C8. Classification is repeatable and leaves the maps as they were. The model is a
  function of the file system and the two maps, so a run has no other input. When a run
  returns a record, the two maps that the record holds (the maps of the caller, which Go
  shares by reference) are the input maps, and a second run on them and the same file
  system returns the same record.
\<close>

theorem classification_repeatable:
  assumes "discoverDistroFromProperties fs lsb os = Inr r"
  shows "LsbRelease r = lsb \<and> OsRelease r = os
         \<and> discoverDistroFromProperties fs (LsbRelease r) (OsRelease r) = Inr r"
proof -
  obtain called res where run: "runDistroTests DistroTests 0 fs lsb os (False, zeroDistro) = (called, res)"
    by (cases "runDistroTests DistroTests 0 fs lsb os (False, zeroDistro)")
  with assms obtain w d where res: "res = Inr (w, d)" and r: "r = (if \<not> w then BestGuess lsb os else d)"
    by (auto simp: discoverDistroFromProperties_def classify_def split: sum.splits)
  have "LsbRelease r = lsb \<and> OsRelease r = os"
  proof (cases w)
    case False
    with r show ?thesis by (simp add: BestGuess_def)
  next
    case True
    with run res runDistroTests_match_source [of DistroTests 0 fs lsb os "(False, zeroDistro)" called d]
    obtain t where "t \<in> set DistroTests" "t fs lsb os = Inr (True, d)" by auto
    from copies_DistroTests [OF this] True r show ?thesis by simp
  qed
  with assms show ?thesis by simp
qed

theorem classification_repeatable_witness:
  "discoverDistroFromProperties noFiles
      (LsbRelease \<lparr>Name = ''Alpine Linux'', ID = ''alpine'', Version = [],
          LsbRelease = noProps, OsRelease = noProps(''ID'' \<mapsto> ''alpine'')\<rparr>)
      (OsRelease \<lparr>Name = ''Alpine Linux'', ID = ''alpine'', Version = [],
          LsbRelease = noProps, OsRelease = noProps(''ID'' \<mapsto> ''alpine'')\<rparr>) =
     Inr \<lparr>Name = ''Alpine Linux'', ID = ''alpine'', Version = [],
          LsbRelease = noProps, OsRelease = noProps(''ID'' \<mapsto> ''alpine'')\<rparr>"
proof -
  have h: "discoverDistroFromProperties noFiles noProps (noProps(''ID'' \<mapsto> ''alpine'')) =
     Inr \<lparr>Name = ''Alpine Linux'', ID = ''alpine'', Version = [],
          LsbRelease = noProps, OsRelease = noProps(''ID'' \<mapsto> ''alpine'')\<rparr>"
    by (simp add: classifier_defs detector_defs input_defs)
  from classification_repeatable [OF h] show ?thesis by blast
qed


subsection \<open>The release-line pattern\<close>

lemma minSpacesList_append: "minSpacesList (a @ b) = minSpacesList a + minSpacesList b"
  by (induction a) auto

lemma rmatch_spaces:
  "rmatch rs s p c = Some (e, c') \<Longrightarrow>
     \<exists>n. e = p + n \<and> n \<le> length s \<and> minSpacesList rs \<le> count_list (take n s) (CHR 0x20)"
proof (induction rs s p c arbitrary: e c' rule: rmatch.induct)
  case (1 s p c)
  then show ?case by (intro exI [of _ 0]) simp
next
  case (2 k rs p c)
  then show ?case by simp
next
  case (3 k rs x xs p c)
  then have in_k: "inClass k x" and m: "rmatch rs xs (Suc p) c = Some (e, c')"
    by (auto split: if_splits)
  from 3(1) [OF in_k m] obtain n where
    n: "e = Suc p + n" "n \<le> length xs" "minSpacesList rs \<le> count_list (take n xs) (CHR 0x20)"
    by blast
  from in_k have "minSpaces (Cls k) \<le> (if x = CHR 0x20 then 1 else 0)" by auto
  with n show ?case by (intro exI [of _ "Suc n"]) auto
next
  case (4 k rs p c)
  then show ?case by auto
next
  case (5 k rs x xs p c)
  show ?case
  proof (cases "inClass k x")
    case False
    with 5(4) have "rmatch rs (x # xs) p c = Some (e, c')" by simp
    from 5(3) [OF False this] show ?thesis by simp
  next
    case True
    show ?thesis
    proof (cases "rmatch (Star k # rs) xs (Suc p) c")
      case None
      with True 5(4) have "rmatch rs (x # xs) p c = Some (e, c')" by simp
      from 5(2) [OF True None this] show ?thesis by simp
    next
      case (Some r)
      with True 5(4) have m: "rmatch (Star k # rs) xs (Suc p) c = Some (e, c')" by simp
      from 5(1) [OF True m] obtain n where
        n: "e = Suc p + n" "n \<le> length xs"
           "minSpacesList (Star k # rs) \<le> count_list (take n xs) (CHR 0x20)"
        by blast
      then show ?thesis by (intro exI [of _ "Suc n"]) auto
    qed
  qed
next
  case (6 k rs s p c)
  then show ?case by auto
next
  case (7 n sub rs s p c)
  then show ?case by (auto simp: minSpacesList_append)
next
  case (8 n st rs s p c)
  from 8(2) have "rmatch rs s p (c(n \<mapsto> (st, p))) = Some (e, c')" by simp
  from 8(1) [OF this] show ?case by simp
next
  case (9 sub rs s p c)
  show ?case
  proof (cases "rmatch (sub @ rs) s p c")
    case None
    with 9(3) have "rmatch rs s p c = Some (e, c')" by simp
    from 9(2) [OF None this] show ?thesis by simp
  next
    case (Some r)
    with 9(3) have "rmatch (sub @ rs) s p c = Some (e, c')" by simp
    from 9(1) [OF this] obtain n where
      "e = p + n" "n \<le> length s" "minSpacesList (sub @ rs) \<le> count_list (take n s) (CHR 0x20)"
      by blast
    then show ?thesis by (intro exI [of _ n]) (simp add: minSpacesList_append)
  qed
next
  case (10 a b rs s p c)
  show ?case
  proof (cases "rmatch (a @ rs) s p c")
    case None
    with 10(3) have "rmatch (b @ rs) s p c = Some (e, c')" by simp
    from 10(2) [OF None this] obtain n where
      "e = p + n" "n \<le> length s" "minSpacesList (b @ rs) \<le> count_list (take n s) (CHR 0x20)"
      by blast
    then show ?thesis by (intro exI [of _ n]) (simp add: minSpacesList_append)
  next
    case (Some r)
    with 10(3) have "rmatch (a @ rs) s p c = Some (e, c')" by simp
    from 10(1) [OF this] obtain n where
      "e = p + n" "n \<le> length s" "minSpacesList (a @ rs) \<le> count_list (take n s) (CHR 0x20)"
      by blast
    then show ?thesis by (intro exI [of _ n]) (simp add: minSpacesList_append)
  qed
qed

lemma count_list_take_le: "count_list (take n xs) x \<le> count_list xs x"
proof (induction xs arbitrary: n)
  case Nil
  then show ?case by simp
next
  case (Cons a xs)
  show ?case
  proof (cases n)
    case 0
    then show ?thesis by simp
  next
    case (Suc m)
    with Cons.IH [of m] show ?thesis by simp
  qed
qed

lemma releaseSplitter_spaces: "minSpacesList (items releaseSplitter) = 2"
  by (simp add: releaseSplitter_def lits_def)

lemma release_match_keeps_prefix:
  assumes pre: "HasPrefix contents expected"
    and few: "count_list expected (CHR 0x20) < 2"
    and hit: "FindStringSubmatch releaseSplitter contents \<noteq> []"
  shows "\<exists>m0 g1 g2 g3 g4. FindStringSubmatch releaseSplitter contents = [m0, g1, g2, g3, g4]
           \<and> HasPrefix m0 expected"
proof -
  from hit obtain e c where m: "rmatch (items releaseSplitter) contents 0 Map.empty = Some (e, c)"
    by (auto simp: FindStringSubmatch_def releaseSplitter_def split: option.splits)
  from rmatch_spaces [OF m] have e: "e \<le> length contents"
    and sp: "2 \<le> count_list (take e contents) (CHR 0x20)"
    by (auto simp: releaseSplitter_spaces)
  have long: "length expected \<le> e"
  proof (rule ccontr)
    assume "\<not> length expected \<le> e"
    then have "take e contents = take e (take (length expected) contents)" by (simp add: min_def)
    with pre have "take e contents = take e expected" by (simp add: HasPrefix_def)
    with sp have "2 \<le> count_list (take e expected) (CHR 0x20)" by simp
    with count_list_take_le [of e expected "CHR 0x20"] few show False by simp
  qed
  have anch: "anchored releaseSplitter" and ng: "numGroups releaseSplitter = 4"
    by (simp_all add: releaseSplitter_def)
  from m anch ng have f: "FindStringSubmatch releaseSplitter contents =
      [take e contents, groupText contents c 1, groupText contents c 2,
       groupText contents c 3, groupText contents c 4]"
    by (simp add: FindStringSubmatch_def slice_def upt_rec eval_nat_numeral)
  from long pre have "HasPrefix (take e contents) expected"
    by (simp add: HasPrefix_def min_def)
  with f show ?thesis by blast
qed

lemma oracle_release_parses:
  assumes "HasPrefix contents ''Oracle Linux''"
    and "FindStringSubmatch releaseSplitter contents \<noteq> []"
  shows "\<exists>v. parseRedhatReleaseContents contents ''Oracle Linux'' = Inr (True, v)"
proof -
  have "count_list ''Oracle Linux'' (CHR 0x20) < 2" by simp
  from release_match_keeps_prefix [OF assms(1) this assms(2)] show ?thesis
    by (auto simp: parseRedhatReleaseContents_def index_def)
qed

lemma IsOracleLinux_by_marker:
  assumes "readFileFunc fs [''/etc/oracle-release''] = (True, contents)"
    and "HasPrefix contents ''Oracle Linux''"
    and "FindStringSubmatch releaseSplitter contents \<noteq> []"
  shows "\<exists>v. IsOracleLinux fs lsb os = found ''Oracle Linux'' ''ol'' v lsb os"
proof -
  from oracle_release_parses [OF assms(2,3)] obtain v where
    "parseRedhatReleaseContents contents ''Oracle Linux'' = Inr (True, v)" by blast
  with assms(1) show ?thesis by (auto simp: IsOracleLinux_def)
qed

text \<open>
  C1. The Oracle marker wins over the shared Red Hat text. Let \<open>/etc/oracle-release\<close>
  resolve to contents that start with \<open>Oracle Linux\<close> and that the release-line pattern
  matches, whatever \<open>/etc/redhat-release\<close> and the other files hold. Then for all maps the
  classifier returns a record with ID \<open>ol\<close> and Name \<open>Oracle Linux\<close>. The same holds for
  every list of tests that starts with \<open>IsCentOS\<close>, \<open>IsRHEL\<close>, \<open>IsFedora\<close> or
  \<open>IsScientificLinux\<close>, when the os-release map does not take the fast path of that
  detector (its \<open>ID\<close> is not \<open>fedora\<close>, and is not \<open>rhel\<close> with a non-empty \<open>VERSION_ID\<close>).
\<close>

theorem oracle_marker_wins:
  assumes "readFileFunc fs [''/etc/oracle-release''] = (True, contents)"
    and "HasPrefix contents ''Oracle Linux''"
    and "FindStringSubmatch releaseSplitter contents \<noteq> []"
  shows "(\<exists>r. discoverDistroFromProperties fs lsb os = Inr r \<and> ID r = ''ol'' \<and> Name r = ''Oracle Linux'')
       \<and> (first \<in> {IsCentOS, IsRHEL, IsFedora, IsScientificLinux}
            \<and> lookup os ''ID'' \<noteq> ''fedora''
            \<and> (lookup os ''ID'' \<noteq> ''rhel'' \<or> lookup os ''VERSION_ID'' = [])
          \<longrightarrow> (\<exists>r. snd (classify (first # rest) fs lsb os) = Inr r
                    \<and> ID r = ''ol'' \<and> Name r = ''Oracle Linux''))"
proof -
  from IsOracleLinux_by_marker [OF assms] obtain v where
    o: "IsOracleLinux fs lsb os = found ''Oracle Linux'' ''ol'' v lsb os" by blast
  then have c: "IsCentOS fs lsb os = found ''Oracle Linux'' ''ol'' v lsb os"
    by (simp add: IsCentOS_def found_def)
  then have "discoverDistroFromProperties fs lsb os =
      Inr \<lparr>Name = ''Oracle Linux'', ID = ''ol'', Version = v, LsbRelease = lsb, OsRelease = os\<rparr>"
    by (simp add: classifier_defs found_def)
  then have one: "\<exists>r. discoverDistroFromProperties fs lsb os = Inr r \<and> ID r = ''ol'' \<and> Name r = ''Oracle Linux''"
    by simp
  have two: "\<exists>r. snd (classify (first # rest) fs lsb os) = Inr r \<and> ID r = ''ol'' \<and> Name r = ''Oracle Linux''"
    if f: "first \<in> {IsCentOS, IsRHEL, IsFedora, IsScientificLinux}"
      and nf: "lookup os ''ID'' \<noteq> ''fedora''"
      and nr: "lookup os ''ID'' \<noteq> ''rhel'' \<or> lookup os ''VERSION_ID'' = []"
  proof -
    from f o c nf nr have "first fs lsb os = found ''Oracle Linux'' ''ol'' v lsb os"
      by (auto simp: IsRHEL_def IsFedora_def IsScientificLinux_def found_def)
    then show ?thesis by (simp add: classify_def found_def)
  qed
  from one two show ?thesis by blast
qed

theorem oracle_marker_wins_witness:
  "(\<exists>r. discoverDistroFromProperties
          (noFiles(''/etc/redhat-release'' := Regular (''Red Hat Enterprise Linux Server release 6.10 (Santiago)'' @ [LF]),
                   ''/etc/oracle-release'' := Regular (''Oracle Linux Server release 6.10'' @ [LF])))
          noProps noProps = Inr r \<and> ID r = ''ol'' \<and> Name r = ''Oracle Linux'')
   \<and> (\<exists>r. snd (classify (IsRHEL # DistroTests)
          (noFiles(''/etc/redhat-release'' := Regular (''Red Hat Enterprise Linux Server release 6.10 (Santiago)'' @ [LF]),
                   ''/etc/oracle-release'' := Regular (''Oracle Linux Server release 6.10'' @ [LF])))
          noProps noProps) = Inr r \<and> ID r = ''ol'' \<and> Name r = ''Oracle Linux'')"
proof -
  let ?fs = "noFiles(''/etc/redhat-release'' := Regular (''Red Hat Enterprise Linux Server release 6.10 (Santiago)'' @ [LF]),
                   ''/etc/oracle-release'' := Regular (''Oracle Linux Server release 6.10'' @ [LF]))"
  have h1: "readFileFunc ?fs [''/etc/oracle-release''] = (True, ''Oracle Linux Server release 6.10'' @ [LF])"
    by (simp add: readFileFunc_def)
  have h2: "HasPrefix (''Oracle Linux Server release 6.10'' @ [LF]) ''Oracle Linux''"
    by (simp add: HasPrefix_def)
  have h3: "FindStringSubmatch releaseSplitter (''Oracle Linux Server release 6.10'' @ [LF]) \<noteq> []"
    by (simp add: FindStringSubmatch_def releaseSplitter_def lits_def LF_def reSpace_def)
  have h4: "IsRHEL \<in> {IsCentOS, IsRHEL, IsFedora, IsScientificLinux}
            \<and> lookup noProps ''ID'' \<noteq> ''fedora''
            \<and> (lookup noProps ''ID'' \<noteq> ''rhel'' \<or> lookup noProps ''VERSION_ID'' = [])"
    by (simp add: lookup_def noProps_def)
  from oracle_marker_wins [OF h1 h2 h3, of noProps noProps IsRHEL DistroTests] h4
  show ?thesis by blast
qed


subsection \<open>The fast paths on the os-release map\<close>

text \<open>
  C9, as stated, fails for RHEL: with \<open>ID = rhel\<close>, no \<open>VERSION_ID\<close>, and neither
  \<open>/etc/redhat-release\<close> nor \<open>/etc/redhat-version\<close> resolving, \<open>IsRHEL\<close> still returns a match
  (the Oracle Linux record) when \<open>/etc/oracle-release\<close> resolves and matches, because it
  asks \<open>IsOracleLinux\<close> before it reads its own marker files.
\<close>

theorem rhel_fast_path_counterexample:
  "lookup (noProps(''ID'' \<mapsto> ''rhel'')) ''ID'' = ''rhel''
   \<and> lookup (noProps(''ID'' \<mapsto> ''rhel'')) ''VERSION_ID'' = []
   \<and> readFileFunc (noFiles(''/etc/oracle-release'' := Regular (''Oracle Linux Server release 7.6'' @ [LF])))
        [''/etc/redhat-release'', ''/etc/redhat-version''] = (False, [])
   \<and> IsRHEL (noFiles(''/etc/oracle-release'' := Regular (''Oracle Linux Server release 7.6'' @ [LF])))
        noProps (noProps(''ID'' \<mapsto> ''rhel'')) =
       Inr (True, \<lparr>Name = ''Oracle Linux'', ID = ''ol'', Version = ''7.6'',
                   LsbRelease = noProps, OsRelease = noProps(''ID'' \<mapsto> ''rhel'')\<rparr>)"
  by (simp add: detector_defs input_defs parseRedhatReleaseContents_def FindStringSubmatch_def
      releaseSplitter_def lits_def reSpace_def index_def HasPrefix_def slice_def groupText_def
      upt_rec TrimSpace_def TrimLeftSpace.simps TrimRightSpace.simps leadingSpaceLen_def
      trailingSpaceLen_def asciiSpace_def unicodeSpaces_def)

text \<open>
  C9, amended. Let \<open>VERSION_ID\<close> be absent or empty in the os-release map. With
  \<open>ID = ol\<close> and \<open>/etc/oracle-release\<close> not resolving, \<open>IsOracleLinux\<close> returns no match; with
  \<open>ID = rhel\<close> and none of \<open>/etc/oracle-release\<close>, \<open>/etc/redhat-release\<close>,
  \<open>/etc/redhat-version\<close> resolving, \<open>IsRHEL\<close> returns no match; with \<open>ID = photon\<close> and
  \<open>/etc/photon-release\<close> not resolving, \<open>IsPhoton\<close> returns no match; with \<open>ID = slackware\<close>
  and \<open>/etc/slackware-version\<close> not resolving, \<open>IsSlackware\<close> returns no match. The other
  detectors that compare the os-release \<open>ID\<close> (Alpine, ALT, Amazon, Clear Linux, Fedora,
  Kali, openSUSE, RancherOS, SLES) match on the \<open>ID\<close> alone, with an empty Version.
\<close>

theorem version_id_fast_path:
  assumes "os ''VERSION_ID'' = None \<or> os ''VERSION_ID'' = Some []"
  shows "(lookup os ''ID'' = ''ol'' \<and> \<not> fst (readFileFunc fs [''/etc/oracle-release''])
            \<longrightarrow> IsOracleLinux fs lsb os = Inr (False, zeroDistro))
       \<and> (lookup os ''ID'' = ''rhel'' \<and> \<not> fst (readFileFunc fs [''/etc/oracle-release''])
            \<and> \<not> fst (readFileFunc fs [''/etc/redhat-release'', ''/etc/redhat-version''])
            \<longrightarrow> IsRHEL fs lsb os = Inr (False, zeroDistro))
       \<and> (lookup os ''ID'' = ''photon'' \<and> \<not> fst (readFileFunc fs [''/etc/photon-release''])
            \<longrightarrow> IsPhoton fs lsb os = Inr (False, zeroDistro))
       \<and> (lookup os ''ID'' = ''slackware'' \<and> \<not> fst (readFileFunc fs [''/etc/slackware-version''])
            \<longrightarrow> IsSlackware fs lsb os = Inr (False, zeroDistro))
       \<and> (lookup os ''ID'' = ''alpine'' \<longrightarrow> IsAlpine fs lsb os = found ''Alpine Linux'' ''alpine'' [] lsb os)
       \<and> (lookup os ''ID'' = ''altlinux'' \<longrightarrow> IsAlt fs lsb os = found ''ALT Starterkit'' ''altlinux'' [] lsb os)
       \<and> (lookup os ''ID'' = ''amzn'' \<longrightarrow> IsAmazonLinux fs lsb os = found ''Amazon Linux'' ''amzn'' [] lsb os)
       \<and> (lookup os ''ID'' = ''clear-linux-os''
            \<longrightarrow> IsClearLinux fs lsb os = found ''Clear Linux OS'' ''clear-linux-os'' [] lsb os)
       \<and> (lookup os ''ID'' = ''fedora'' \<longrightarrow> IsFedora fs lsb os = found ''Fedora'' ''fedora'' [] lsb os)
       \<and> (lookup os ''ID'' = ''kali'' \<longrightarrow> IsKali fs lsb os = found ''Kali GNU/Linux'' ''kali'' [] lsb os)
       \<and> (lookup os ''ID'' = ''opensuse'' \<longrightarrow> IsOpenSuSE fs lsb os = found ''openSUSE'' ''opensuse'' [] lsb os)
       \<and> (lookup os ''ID'' = ''rancheros'' \<longrightarrow> IsRancherOS fs lsb os = found ''RancherOS'' ''rancheros'' [] lsb os)
       \<and> (lookup os ''ID'' = ''sles'' \<longrightarrow> IsSLES fs lsb os = found ''SUSE Linux'' ''sles'' [] lsb os)"
proof -
  from assms have v: "lookup os ''VERSION_ID'' = []" by (auto simp: lookup_def)
  show ?thesis
    by (intro conjI impI)
      (auto simp: v IsOracleLinux_def IsRHEL_def IsPhoton_def IsSlackware_def IsAlpine_def IsAlt_def
        IsAmazonLinux_def IsClearLinux_def IsFedora_def IsKali_def IsOpenSuSE_def IsRancherOS_def
        IsSLES_def releaseFileCheck_def notFound_def split: prod.splits)
qed

theorem version_id_fast_path_witness:
  "IsOracleLinux noFiles noProps (noProps(''ID'' \<mapsto> ''ol'')) = Inr (False, zeroDistro)
   \<and> IsRHEL noFiles noProps (noProps(''ID'' \<mapsto> ''rhel'', ''VERSION_ID'' \<mapsto> [])) = Inr (False, zeroDistro)
   \<and> IsPhoton noFiles noProps (noProps(''ID'' \<mapsto> ''photon'')) = Inr (False, zeroDistro)
   \<and> IsSlackware noFiles noProps (noProps(''ID'' \<mapsto> ''slackware'')) = Inr (False, zeroDistro)
   \<and> IsFedora noFiles noProps (noProps(''ID'' \<mapsto> ''fedora'')) =
       Inr (True, \<lparr>Name = ''Fedora'', ID = ''fedora'', Version = [],
                   LsbRelease = noProps, OsRelease = noProps(''ID'' \<mapsto> ''fedora'')\<rparr>)"
proof -
  have nf: "\<And>ps. \<not> fst (readFileFunc noFiles ps)"
  proof -
    fix ps
    have "readBinaryFileFunc noFiles ps = NoCandidate" by (induction ps) (auto simp: noFiles_def)
    then show "\<not> fst (readFileFunc noFiles ps)" by (simp add: readFileFunc_def)
  qed
  have a: "(noProps(''ID'' \<mapsto> ''ol'')) ''VERSION_ID'' = None \<or> (noProps(''ID'' \<mapsto> ''ol'')) ''VERSION_ID'' = Some []"
    by (simp add: noProps_def)
  have b: "(noProps(''ID'' \<mapsto> ''rhel'', ''VERSION_ID'' \<mapsto> [])) ''VERSION_ID'' = None
         \<or> (noProps(''ID'' \<mapsto> ''rhel'', ''VERSION_ID'' \<mapsto> [])) ''VERSION_ID'' = Some []"
    by simp
  have c: "(noProps(''ID'' \<mapsto> ''photon'')) ''VERSION_ID'' = None \<or> (noProps(''ID'' \<mapsto> ''photon'')) ''VERSION_ID'' = Some []"
    by (simp add: noProps_def)
  have d: "(noProps(''ID'' \<mapsto> ''slackware'')) ''VERSION_ID'' = None \<or> (noProps(''ID'' \<mapsto> ''slackware'')) ''VERSION_ID'' = Some []"
    by (simp add: noProps_def)
  have e: "(noProps(''ID'' \<mapsto> ''fedora'')) ''VERSION_ID'' = None \<or> (noProps(''ID'' \<mapsto> ''fedora'')) ''VERSION_ID'' = Some []"
    by (simp add: noProps_def)
  have "IsOracleLinux noFiles noProps (noProps(''ID'' \<mapsto> ''ol'')) = Inr (False, zeroDistro)"
    using version_id_fast_path [where os = "noProps(''ID'' \<mapsto> ''ol'')" and fs = noFiles and lsb = noProps] a nf
    by (simp add: lookup_def)
  moreover have "IsRHEL noFiles noProps (noProps(''ID'' \<mapsto> ''rhel'', ''VERSION_ID'' \<mapsto> [])) = Inr (False, zeroDistro)"
    using version_id_fast_path [where os = "noProps(''ID'' \<mapsto> ''rhel'', ''VERSION_ID'' \<mapsto> [])" and fs = noFiles and lsb = noProps] b nf
    by (simp add: lookup_def)
  moreover have "IsPhoton noFiles noProps (noProps(''ID'' \<mapsto> ''photon'')) = Inr (False, zeroDistro)"
    using version_id_fast_path [where os = "noProps(''ID'' \<mapsto> ''photon'')" and fs = noFiles and lsb = noProps] c nf
    by (simp add: lookup_def)
  moreover have "IsSlackware noFiles noProps (noProps(''ID'' \<mapsto> ''slackware'')) = Inr (False, zeroDistro)"
    using version_id_fast_path [where os = "noProps(''ID'' \<mapsto> ''slackware'')" and fs = noFiles and lsb = noProps] d nf
    by (simp add: lookup_def)
  moreover have "IsFedora noFiles noProps (noProps(''ID'' \<mapsto> ''fedora'')) =
       found ''Fedora'' ''fedora'' [] noProps (noProps(''ID'' \<mapsto> ''fedora''))"
    using version_id_fast_path [where os = "noProps(''ID'' \<mapsto> ''fedora'')" and fs = noFiles and lsb = noProps] e
    by (simp add: lookup_def)
  ultimately show ?thesis by (simp add: found_def)
qed


subsection \<open>The fallback Name\<close>

text \<open>
  C7, as stated, fails: \<open>BestGuess\<close> cuts \<open>PRETTY_NAME\<close> at its first space character
  only. With \<open>PRETTY_NAME\<close> holding \<open>Foo\<close>, a tab and \<open>Bar\<close>, no detector matches and the
  Name is the whole value, where the first white-space-delimited token is \<open>Foo\<close>.
\<close>

theorem fallback_name_counterexample:
  "noneMatches DistroTests noFiles noProps (noProps(''PRETTY_NAME'' \<mapsto> ''Foo'' @ [TAB] @ ''Bar''))
   \<and> discoverDistroFromProperties noFiles noProps (noProps(''PRETTY_NAME'' \<mapsto> ''Foo'' @ [TAB] @ ''Bar'')) =
       Inr \<lparr>Name = ''Foo'' @ [TAB] @ ''Bar'', ID = ''unknown'', Version = ''unknown'',
            LsbRelease = noProps, OsRelease = noProps(''PRETTY_NAME'' \<mapsto> ''Foo'' @ [TAB] @ ''Bar'')\<rparr>
   \<and> specFallbackName noProps (noProps(''PRETTY_NAME'' \<mapsto> ''Foo'' @ [TAB] @ ''Bar'')) = ''Foo''"
  by (simp add: classifier_defs detector_defs input_defs BestGuess_def hd_SplitN_2 noneMatches_def
      noMatch_def zeroDistro_def specFallbackName_def firstWhitespaceToken_def asciiSpace_def)

lemma firstNonEmpty_chain:
  "firstNonEmpty [a, b, c, d, e] =
     (if a \<noteq> [] then a else if b \<noteq> [] then b else if c \<noteq> [] then c else if d \<noteq> [] then d else e)"
  by simp

lemma textBeforeSpace_empty: "textBeforeSpace s = [] \<longleftrightarrow> s = [] \<or> HasPrefix s '' ''"
  by (cases s) (auto simp: textBeforeSpace_def HasPrefix_def)

text \<open>
  C7, amended. When no detector matches and \<open>PRETTY_NAME\<close> does not start with a space,
  the Name of the result is the first non-empty of: the os-release \<open>NAME\<close>; the text of
  \<open>PRETTY_NAME\<close> before its first space character; the LSB \<open>DISTRIB_ID\<close>; the os-release
  \<open>ID\<close>; \<open>Unknown\<close>.
\<close>

theorem fallback_name_order:
  assumes "noneMatches DistroTests fs lsb os"
    and "\<not> HasPrefix (lookup os ''PRETTY_NAME'') '' ''"
  shows "\<exists>r. discoverDistroFromProperties fs lsb os = Inr r
           \<and> Name r = firstNonEmpty [lookup os ''NAME'', textBeforeSpace (lookup os ''PRETTY_NAME''),
                                       lookup lsb ''DISTRIB_ID'', lookup os ''ID'', ''Unknown'']"
proof -
  from assms(1) have "discoverDistroFromProperties fs lsb os = Inr (BestGuess lsb os)"
    using runDistroTests_none [of DistroTests fs lsb os 0 zeroDistro]
    by (auto simp: discoverDistroFromProperties_def classify_def)
  moreover from assms(2) have
    "Name (BestGuess lsb os) =
       firstNonEmpty [lookup os ''NAME'', textBeforeSpace (lookup os ''PRETTY_NAME''),
                      lookup lsb ''DISTRIB_ID'', lookup os ''ID'', ''Unknown'']"
    by (simp only: firstNonEmpty_chain textBeforeSpace_empty)
      (simp add: BestGuess_def hd_SplitN_2 textBeforeSpace_def)
  ultimately show ?thesis by simp
qed

theorem fallback_name_order_witness:
  "\<exists>r. discoverDistroFromProperties noFiles (noProps(''DISTRIB_ID'' \<mapsto> ''Exotic''))
          (noProps(''PRETTY_NAME'' \<mapsto> ''Foo Linux 3'', ''ID'' \<mapsto> ''foo'')) = Inr r
       \<and> Name r = ''Foo''"
proof -
  have h1: "noneMatches DistroTests noFiles (noProps(''DISTRIB_ID'' \<mapsto> ''Exotic''))
          (noProps(''PRETTY_NAME'' \<mapsto> ''Foo Linux 3'', ''ID'' \<mapsto> ''foo''))"
    by (simp add: DistroTests_def noneMatches_def noMatch_def detector_defs input_defs zeroDistro_def)
  have h2: "\<not> HasPrefix (lookup (noProps(''PRETTY_NAME'' \<mapsto> ''Foo Linux 3'', ''ID'' \<mapsto> ''foo'')) ''PRETTY_NAME'') '' ''"
    by (simp add: HasPrefix_def lookup_def)
  from fallback_name_order [OF h1 h2] show ?thesis
    by (simp add: lookup_def noProps_def textBeforeSpace_def)
qed


subsection \<open>The Key-Value Parser\<close>

lemma star_greedy:
  assumes "\<forall>x\<in>set w. inClass k x"
    and "s = [] \<or> \<not> inClass k (hd s)"
    and "rmatch rs s (p + length w) c = Some r"
  shows "rmatch (Star k # rs) (w @ s) p c = Some r"
  using assms
proof (induction w arbitrary: p)
  case Nil
  then show ?case by (cases s) auto
next
  case (Cons a w)
  from Cons.prems have "rmatch (Star k # rs) (w @ s) (Suc p) c = Some r"
    by (intro Cons.IH) auto
  with Cons.prems show ?case by simp
qed

lemma plus_greedy:
  assumes "w \<noteq> []"
    and "\<forall>x\<in>set w. inClass k x"
    and "s = [] \<or> \<not> inClass k (hd s)"
    and "rmatch rs s (p + length w) c = Some r"
  shows "rmatch (Plus k # rs) (w @ s) p c = Some r"
proof -
  from assms(1) obtain a w' where w: "w = a # w'" by (cases w) auto
  with assms have "rmatch (Star k # rs) (w' @ s) (Suc p) c = Some r"
    by (intro star_greedy) auto
  with w assms(2) show ?thesis by simp
qed

lemma star_fails_on_suffix:
  assumes "\<And>u t' q. t = u @ t' \<Longrightarrow> rmatch rs t' q c = None"
  shows "t = u @ t' \<Longrightarrow> rmatch (Star k # rs) t' q c = None"
proof (induction t' arbitrary: u q)
  case Nil
  with assms [of u "[]" q] show ?case by simp
next
  case (Cons a t')
  from Cons.prems have "t = (u @ [a]) @ t'" by simp
  from Cons.IH [OF this] have "rmatch (Star k # rs) t' (Suc q) c = None" .
  moreover from assms [OF Cons.prems] have "rmatch rs (a # t') q c = None" .
  ultimately show ?case by simp
qed

lemma star_backs_off:
  assumes "\<forall>x\<in>set w. inClass k x"
    and "rmatch rs (a # t) (p + length w) c = Some r"
    and "\<And>u t' q. t = u @ t' \<Longrightarrow> rmatch rs t' q c = None"
  shows "rmatch (Star k # rs) (w @ a # t) p c = Some r"
  using assms(1,2)
proof (induction w arbitrary: p)
  case Nil
  from star_fails_on_suffix [of t rs c "[]" t k "Suc p"] assms(3)
  have "rmatch (Star k # rs) t (Suc p) c = None" by simp
  with Nil show ?case by simp
next
  case (Cons b w)
  from Cons.prems have "rmatch (Star k # rs) (w @ a # t) (Suc p) c = Some r"
    by (intro Cons.IH) auto
  with Cons.prems show ?case by simp
qed

lemma no_equals_no_match:
  "CHR ''='' \<notin> set s \<Longrightarrow> rmatch (Star WhiteSp # Cls (Lit (CHR ''='')) # rs) s p c = None"
  by (induction s arbitrary: p) auto

lemma value_part:
  assumes w3: "\<forall>x\<in>set w3. reSpace x"
    and w4: "\<forall>x\<in>set w4. reSpace x"
    and V: "V \<noteq> []" "\<forall>x\<in>set V. \<not> reSpace x \<or> x = CHR 0x20" "hd V \<noteq> CHR 0x20"
    and b4: "w4 = [] \<or> hd w4 \<noteq> CHR 0x20"
  shows "rmatch afterEquals (w3 @ V @ w4) p c =
           Some (p + length w3 + length V + length w4,
                 c(2 \<mapsto> (p + length w3, p + length w3 + length V)))"
proof -
  let ?q = "p + length w3"
  let ?c = "c(2 \<mapsto> (?q, ?q + length V))"
  have tail: "rmatch [Star WhiteSp] (w4 @ []) (?q + length V) ?c = Some (?q + length V + length w4, ?c)"
    using w4 by (intro star_greedy) auto
  have "rmatch (Plus NonWhiteOrBlank # [EndGrp 2 ?q, Star WhiteSp]) (V @ w4) ?q c
          = Some (?q + length V + length w4, ?c)"
  proof (intro plus_greedy)
    show "V \<noteq> []" by fact
    show "\<forall>x\<in>set V. inClass NonWhiteOrBlank x" using V(2) by auto
    show "w4 = [] \<or> \<not> inClass NonWhiteOrBlank (hd w4)"
      using w4 b4 by (cases w4) auto
    show "rmatch [EndGrp 2 ?q, Star WhiteSp] w4 (?q + length V) c = Some (?q + length V + length w4, ?c)"
      using tail by simp
  qed
  then have grp: "rmatch [Grp 2 [Plus NonWhiteOrBlank], Star WhiteSp] (V @ w4) ?q c
          = Some (?q + length V + length w4, ?c)"
    by simp
  have "rmatch (Star WhiteSp # [Grp 2 [Plus NonWhiteOrBlank], Star WhiteSp]) (w3 @ V @ w4) p c
          = Some (?q + length V + length w4, ?c)"
  proof (intro star_greedy)
    show "\<forall>x\<in>set w3. inClass WhiteSp x" using w3 by auto
    from V have "\<not> reSpace (hd V)" by (cases V) auto
    with V(1) show "V @ w4 = [] \<or> \<not> inClass WhiteSp (hd (V @ w4))" by simp
    show "rmatch [Grp 2 [Plus NonWhiteOrBlank], Star WhiteSp] (V @ w4) ?q c
            = Some (?q + length V + length w4, ?c)" by (rule grp)
  qed
  then show ?thesis by (simp add: afterEquals_def)
qed

lemma equals_part:
  assumes w2: "\<forall>x\<in>set w2. reSpace x"
    and rest: "rmatch afterEquals R (Suc (p + length w2)) c = Some r"
  shows "rmatch (Star WhiteSp # Cls (Lit (CHR ''='')) # afterEquals) (w2 @ CHR ''='' # R) p c = Some r"
proof (intro star_greedy)
  show "\<forall>x\<in>set w2. inClass WhiteSp x" using w2 by auto
  show "CHR ''='' # R = [] \<or> \<not> inClass WhiteSp (hd (CHR ''='' # R))" by (simp add: reSpace_def)
  show "rmatch (Cls (Lit (CHR ''='')) # afterEquals) (CHR ''='' # R) (p + length w2) c = Some r"
    using rest by simp
qed

lemma key_part:
  assumes K: "K \<noteq> []" "\<forall>x\<in>set K. \<not> reSpace x"
    and w2: "\<forall>x\<in>set w2. reSpace x"
    and uniq: "w2 \<noteq> [] \<or> CHR ''='' \<notin> set R"
    and rest: "rmatch afterEquals R (Suc (p + length K + length w2)) (c(1 \<mapsto> (p, p + length K))) = Some r"
  shows "rmatch (Grp 1 [Plus NonWhiteSp] # Star WhiteSp # Cls (Lit (CHR ''='')) # afterEquals)
           (K @ w2 @ CHR ''='' # R) p c = Some r"
proof -
  let ?cont = "EndGrp 1 p # Star WhiteSp # Cls (Lit (CHR ''='')) # afterEquals"
  from K(1) obtain a K' where K': "K = a # K'" by (cases K) auto
  have cont: "rmatch ?cont (w2 @ CHR ''='' # R) (p + length K) c = Some r"
    using equals_part [OF w2, of R "p + length K" "c(1 \<mapsto> (p, p + length K))" r] rest by simp
  have "rmatch (Star NonWhiteSp # ?cont) (K' @ w2 @ CHR ''='' # R) (Suc p) c = Some r"
  proof (cases "w2 = []")
    case False
    show ?thesis
    proof (intro star_greedy)
      show "\<forall>x\<in>set K'. inClass NonWhiteSp x" using K(2) K' by auto
      from False w2 show "w2 @ CHR ''='' # R = [] \<or> \<not> inClass NonWhiteSp (hd (w2 @ CHR ''='' # R))"
        by (cases w2) auto
      from cont K' show "rmatch ?cont (w2 @ CHR ''='' # R) (Suc p + length K') c = Some r" by simp
    qed
  next
    case True
    with uniq have ne: "CHR ''='' \<notin> set R" by simp
    have "rmatch (Star NonWhiteSp # ?cont) (K' @ CHR ''='' # R) (Suc p) c = Some r"
    proof (intro star_backs_off)
      show "\<forall>x\<in>set K'. inClass NonWhiteSp x" using K(2) K' by auto
      from cont K' True show "rmatch ?cont (CHR ''='' # R) (Suc p + length K') c = Some r" by simp
    next
      fix u t' q
      assume "R = u @ t'"
      with ne have "CHR ''='' \<notin> set t'" by auto
      then show "rmatch ?cont t' q c = None" by (simp add: no_equals_no_match)
    qed
    with True show ?thesis by simp
  qed
  with K' K(2) show ?thesis by simp
qed

lemma equalsSplitter_groups:
  assumes w1: "\<forall>x\<in>set w1. reSpace x"
    and K: "K \<noteq> []" "\<forall>x\<in>set K. \<not> reSpace x"
    and w2: "\<forall>x\<in>set w2. reSpace x"
    and w3: "\<forall>x\<in>set w3. reSpace x"
    and V: "V \<noteq> []" "\<forall>x\<in>set V. \<not> reSpace x \<or> x = CHR 0x20" "hd V \<noteq> CHR 0x20"
    and w4: "\<forall>x\<in>set w4. reSpace x" "w4 = [] \<or> hd w4 \<noteq> CHR 0x20"
    and uniq: "w2 \<noteq> [] \<or> CHR ''='' \<notin> set V"
  shows "FindStringSubmatch equalsSplitter (w1 @ K @ w2 @ ''='' @ w3 @ V @ w4) =
           [w1 @ K @ w2 @ ''='' @ w3 @ V @ w4, K, V]"
proof -
  define R where "R = w3 @ V @ w4"
  define line where "line = w1 @ K @ w2 @ CHR ''='' # R"
  define a where "a = Suc (length w1 + length K + length w2) + length w3"
  define c1 :: captures where "c1 = [1 \<mapsto> (length w1, length w1 + length K)]"
  define c2 :: captures where "c2 = c1(2 \<mapsto> (a, a + length V))"
  define keyItems where
    "keyItems = Grp 1 [Plus NonWhiteSp] # Star WhiteSp # Cls (Lit (CHR ''='')) # afterEquals"
  have "\<not> reSpace (CHR ''='')" by (simp add: reSpace_def)
  with w3 w4(1) have noeq: "CHR ''='' \<notin> set w3" "CHR ''='' \<notin> set w4"
    by blast+
  have len: "length line = a + length V + length w4"
    by (simp add: line_def R_def a_def)
  have val: "rmatch afterEquals R (Suc (length w1 + length K + length w2)) c1 = Some (length line, c2)"
    unfolding R_def len c2_def a_def
    using value_part [OF w3 w4(1) V w4(2), of "Suc (length w1 + length K + length w2)" c1]
    by (simp only: add.assoc)
  have u: "w2 \<noteq> [] \<or> CHR ''='' \<notin> set R"
    using uniq noeq by (auto simp: R_def)
  have key: "rmatch keyItems (K @ w2 @ CHR ''='' # R) (length w1) Map.empty = Some (length line, c2)"
    unfolding keyItems_def
  proof (rule key_part [OF K w2 u])
    show "rmatch afterEquals R (Suc (length w1 + length K + length w2))
        (Map.empty(1 \<mapsto> (length w1, length w1 + length K))) = Some (length line, c2)"
      using val by (simp only: c1_def)
  qed
  have b1: "K @ w2 @ CHR ''='' # R = [] \<or> \<not> inClass WhiteSp (hd (K @ w2 @ CHR ''='' # R))"
    using K by (cases K) auto
  have c: "\<forall>x\<in>set w1. inClass WhiteSp x" using w1 by auto
  have key': "rmatch keyItems (K @ w2 @ CHR ''='' # R) (0 + length w1) Map.empty = Some (length line, c2)"
    using key by (simp only: add_0)
  have "rmatch (Star WhiteSp # keyItems) (w1 @ K @ w2 @ CHR ''='' # R) 0 Map.empty = Some (length line, c2)"
    by (rule star_greedy [OF c b1 key'])
  then have m: "rmatch (items equalsSplitter) line 0 Map.empty = Some (length line, c2)"
    by (simp add: equalsSplitter_def afterEquals_def keyItems_def line_def)
  have g1: "groupText line c2 1 = K"
    by (simp add: groupText_def slice_def c2_def c1_def line_def)
  have g2: "groupText line c2 2 = V"
    by (simp add: groupText_def slice_def c2_def c1_def line_def R_def a_def)
  have "FindStringSubmatch equalsSplitter line = [line, groupText line c2 1, groupText line c2 2]"
    using m by (simp add: FindStringSubmatch_def equalsSplitter_def slice_def upt_rec eval_nat_numeral
        del: fun_upd_apply)
  with g1 g2 have "FindStringSubmatch equalsSplitter line = [line, K, V]" by simp
  moreover have "w1 @ K @ w2 @ ''='' @ w3 @ V @ w4 = line" by (simp add: line_def R_def)
  ultimately show ?thesis by simp
qed

lemma Trim_bare: "bareValue x \<Longrightarrow> Trim x q = (if q = CHR 0x22 then x else Trim x q)"
proof (cases "x = [] \<or> q \<noteq> CHR 0x22")
  case True
  then show ?thesis by (auto simp: Trim_def)
next
  case False
  assume b: "bareValue x"
  from False have ne: "x \<noteq> []" and q: "q = CHR 0x22" by auto
  from b ne have h: "hd x \<noteq> q" and l: "last x \<noteq> q" by (auto simp: bareValue_def q)
  from ne h have d1: "dropWhile (\<lambda>y. y = q) x = x" by (cases x) auto
  from ne l have "hd (rev x) \<noteq> q" by (simp add: hd_rev)
  with ne have d2: "dropWhile (\<lambda>y. y = q) (rev x) = rev x" by (cases "rev x") auto
  from d1 d2 q show ?thesis by (simp add: Trim_def)
qed

lemma Trim_stripOnePair:
  assumes "atMostOnePair x"
  shows "Trim x (CHR 0x22) = stripOnePair x"
proof (cases "bareValue x")
  case True
  then have "Trim x (CHR 0x22) = x" using Trim_bare [of x "CHR 0x22"] by simp
  moreover from True have "stripOnePair x = x"
    by (auto simp: stripOnePair_def bareValue_def)
  ultimately show ?thesis by simp
next
  case False
  with assms have len: "2 \<le> length x" and h: "hd x = CHR 0x22" and l: "last x = CHR 0x22"
    and b: "bareValue (butlast (tl x))"
    by (auto simp: atMostOnePair_def)
  define m where "m = butlast (tl x)"
  from len h l have x: "x = CHR 0x22 # m @ [CHR 0x22]"
  proof -
    from len obtain a t where at: "x = a # t" "t \<noteq> []"
      by (cases x) (auto simp: Suc_le_eq)
    with h have "a = CHR 0x22" by simp
    moreover from at l have "last t = CHR 0x22" by simp
    with at(2) have "t = butlast t @ [CHR 0x22]" by (metis append_butlast_last_id)
    ultimately show ?thesis using at by (simp add: m_def)
  qed
  from b have tm: "Trim m (CHR 0x22) = m" using Trim_bare [of m "CHR 0x22"] by (simp add: m_def)
  have "Trim x (CHR 0x22) = Trim m (CHR 0x22)"
  proof (cases "m = []")
    case True
    with x show ?thesis by (simp add: Trim_def)
  next
    case False
    with b have hm: "hd m \<noteq> CHR 0x22" by (auto simp: bareValue_def m_def)
    from False hm have "dropWhile (\<lambda>y. y = CHR 0x22) (m @ [CHR 0x22]) = m @ [CHR 0x22]"
      by (cases m) auto
    moreover from False hm have "dropWhile (\<lambda>y. y = CHR 0x22) m = m" by (cases m) auto
    ultimately show ?thesis using x by (simp add: Trim_def)
  qed
  with tm have "Trim x (CHR 0x22) = m" by simp
  moreover from x len have "stripOnePair x = m" by (simp add: stripOnePair_def)
  ultimately show ?thesis by simp
qed

text \<open>
  C5, as stated, fails: \<open>strings.Trim\<close> removes every leading and trailing double quote,
  not one matching pair. An unmatched quote is removed (\<open>k="v\<close> gives \<open>v\<close>), a doubly
  quoted value loses both layers (\<open>k=""v""\<close> gives \<open>v\<close>), and the key is the text before the
  last equals sign of the first word (\<open>a=b=c\<close> gives the key \<open>a=b\<close>).
\<close>

theorem quote_stripping_counterexample:
  "splitEqualsKeyVal (''k='' @ [DQ] @ ''v'') = Inr (''k'', ''v'')
   \<and> stripOnePair ([DQ] @ ''v'') = [DQ] @ ''v''
   \<and> splitEqualsKeyVal (''k='' @ [DQ, DQ] @ ''v'' @ [DQ, DQ]) = Inr (''k'', ''v'')
   \<and> stripOnePair ([DQ, DQ] @ ''v'' @ [DQ, DQ]) = [DQ] @ ''v'' @ [DQ]
   \<and> splitEqualsKeyVal ''a=b=c'' = Inr (''a=b'', ''c'')"
  by (simp add: splitEqualsKeyVal_def regex_defs trim_defs DQ_def stripOnePair_def)

text \<open>
  C5, amended. Let a line be \<open>w1 K w2 = w3 V w4\<close>, where the \<open>w\<close> are white space of the
  pattern, \<open>K\<close> is not empty and has no white space, \<open>V\<close> is not empty, made of spaces and
  characters that are not white space, and does not start with a space, \<open>w4\<close> does not
  start with a space, the line does not start with \<open>#\<close>, and either \<open>w2\<close> is not empty or
  \<open>V\<close> has no equals sign. Then the parser returns the key \<open>K\<close> and the value \<open>V\<close> with
  its surrounding white space trimmed and then every leading and trailing double quote
  removed. When the trimmed value is bare or enclosed in exactly one pair of double
  quotes, that is the removal of the one pair.
\<close>

theorem key_value_line:
  assumes ws: "\<forall>x\<in>set (w1 @ w2 @ w3 @ w4). reSpace x"
    and K: "K \<noteq> []" "\<forall>x\<in>set K. \<not> reSpace x"
    and V: "V \<noteq> []" "\<forall>x\<in>set V. \<not> reSpace x \<or> x = CHR 0x20" "hd V \<noteq> CHR 0x20"
    and w4: "w4 = [] \<or> hd w4 \<noteq> CHR 0x20"
    and uniq: "w2 \<noteq> [] \<or> CHR ''='' \<notin> set V"
    and nc: "hd (w1 @ K) \<noteq> CHR ''#''"
  shows "splitEqualsKeyVal (w1 @ K @ w2 @ ''='' @ w3 @ V @ w4) = Inr (K, Trim (TrimSpace V) DQ)
       \<and> (atMostOnePair (TrimSpace V) \<longrightarrow> Trim (TrimSpace V) DQ = stripOnePair (TrimSpace V))"
proof -
  from ws have s: "\<forall>x\<in>set w1. reSpace x" "\<forall>x\<in>set w2. reSpace x" "\<forall>x\<in>set w3. reSpace x"
    "\<forall>x\<in>set w4. reSpace x" by auto
  let ?line = "w1 @ K @ w2 @ ''='' @ w3 @ V @ w4"
  have f: "FindStringSubmatch equalsSplitter ?line = [?line, K, V]"
    by (rule equalsSplitter_groups [OF s(1) K s(2) s(3) V s(4) w4 uniq])
  from K(1) have ne: "?line \<noteq> []" by simp
  from K(1) have "hd ?line = hd (w1 @ K)" by (cases w1) auto
  with nc have "hd ?line \<noteq> CHR ''#''" by simp
  with ne f have "splitEqualsKeyVal ?line = Inr (K, Trim (TrimSpace V) DQ)"
    by (simp add: splitEqualsKeyVal_def DQ_def del: append_assoc)
  then show ?thesis using Trim_stripOnePair [of "TrimSpace V"] by (simp add: DQ_def)
qed

theorem key_value_line_witness:
  "splitEqualsKeyVal (''   a_single_key'' @ [TAB] @ '' =   a_single_value'' @ [TAB, CHR 0x0D, LF]) =
     Inr (''a_single_key'', ''a_single_value'')
   \<and> splitEqualsKeyVal (''NAME='' @ [DQ] @ ''Oracle Linux Server'' @ [DQ] @ '' '') =
     Inr (''NAME'', ''Oracle Linux Server'')
   \<and> stripOnePair ([DQ] @ ''Oracle Linux Server'' @ [DQ]) = ''Oracle Linux Server''"
proof -
  have a: "splitEqualsKeyVal (''   a_single_key'' @ [TAB] @ '' =   a_single_value'' @ [TAB, CHR 0x0D, LF])
      = Inr (''a_single_key'', ''a_single_value'')"
    using key_value_line [of "''   ''" "[TAB, CHR 0x20]" "''   ''" "[TAB, CHR 0x0D, LF]"
        "''a_single_key''" "''a_single_value''"]
    by (simp add: reSpace_def input_defs trim_defs)
  have b: "splitEqualsKeyVal (''NAME='' @ [DQ] @ ''Oracle Linux Server'' @ [DQ] @ '' '')
      = Inr (''NAME'', ''Oracle Linux Server'')
      \<and> stripOnePair ([DQ] @ ''Oracle Linux Server'' @ [DQ]) = ''Oracle Linux Server''"
    using key_value_line [of "[]" "[]" "[]" "[]" "''NAME''"
        "[DQ] @ ''Oracle Linux Server'' @ [DQ] @ '' ''"]
    by (simp add: reSpace_def input_defs trim_defs atMostOnePair_def bareValue_def stripOnePair_def)
  from a b show ?thesis by simp
qed


subsection \<open>The identity fields of the result\<close>

lemma literal_Oracle:
  "IsOracleLinux fs lsb os = Inr (True, d) \<Longrightarrow> ID d \<noteq> [] \<and> Name d \<noteq> []"
  by (auto simp: IsOracleLinux_def found_def notFound_def split: if_splits prod.splits sum.splits)

lemma literal_MX: "IsMXLinux fs lsb os = Inr (True, d) \<Longrightarrow> ID d \<noteq> [] \<and> Name d \<noteq> []"
  by (auto simp: IsMXLinux_def found_def notFound_def Let_def split: if_splits prod.splits sum.splits)

lemma literal_releaseFileCheck:
  "releaseFileCheck fs ps e n i lsb os = Inr (True, d) \<Longrightarrow> ID d = i \<and> Name d = n"
  by (auto simp: releaseFileCheck_def found_def notFound_def split: if_splits prod.splits sum.splits)

lemma literal_markerFileCheck:
  "markerFileCheck fs ps e n i lsb os = Inr (True, d) \<Longrightarrow> ID d = i \<and> Name d = n"
  by (auto simp: markerFileCheck_def found_def notFound_def split: if_splits prod.splits sum.splits)

lemma literal_DistroTests:
  "t \<in> set DistroTests \<Longrightarrow> t fs lsb os = Inr (True, d) \<Longrightarrow> ID d \<noteq> [] \<and> Name d \<noteq> []"
  unfolding DistroTests_def
  apply (simp only: set_simps insert_iff empty_iff)
  apply (elim disjE)
  apply (auto simp: IsCentOS_def IsRHEL_def IsUbuntu_def IsDebian_def IsAmazonLinux_def
      IsFedora_def IsOpenSuSE_def IsSLES_def IsPhoton_def IsAlpine_def IsArchLinux_def
      IsGentoo_def IsKali_def IsScientificLinux_def IsSlackware_def IsMageia_def
      IsClearLinux_def IsMint_def IsNovellOES_def IsPuppy_def IsRancherOS_def IsAlt_def
      IsCrux_def IsSourceMage_def IsAndroid_def IsYellowDog_def IsBusyBox_def found_def
      notFound_def Let_def
      dest: literal_Oracle literal_MX literal_releaseFileCheck literal_markerFileCheck
      split: if_splits prod.splits sum.splits option.splits opened.splits)
  done

lemma BestGuess_ID: "ID (BestGuess lsb os) \<noteq> []"
  by (simp add: BestGuess_def ToLower_def)

lemma BestGuess_Name:
  "\<not> HasPrefix (lookup os ''PRETTY_NAME'') '' '' \<or> lookup os ''NAME'' \<noteq> [] \<Longrightarrow> Name (BestGuess lsb os) \<noteq> []"
  by (auto simp: BestGuess_def hd_SplitN_2 textBeforeSpace_empty [unfolded textBeforeSpace_def])

text \<open>
  What holds of the identity fields: a returned record always has a non-empty ID, and its
  Name is not empty unless \<open>NAME\<close> is empty and \<open>PRETTY_NAME\<close> starts with a space.
\<close>

lemma result_ID_Name:
  assumes "discoverDistroFromProperties fs lsb os = Inr r"
  shows "ID r \<noteq> []"
    and "\<not> HasPrefix (lookup os ''PRETTY_NAME'') '' '' \<or> lookup os ''NAME'' \<noteq> [] \<Longrightarrow> Name r \<noteq> []"
proof -
  obtain called res where run: "runDistroTests DistroTests 0 fs lsb os (False, zeroDistro) = (called, res)"
    by (cases "runDistroTests DistroTests 0 fs lsb os (False, zeroDistro)")
  with assms obtain w d where res: "res = Inr (w, d)" and r: "r = (if \<not> w then BestGuess lsb os else d)"
    by (auto simp: discoverDistroFromProperties_def classify_def split: sum.splits)
  have lit: "ID d \<noteq> [] \<and> Name d \<noteq> []" if w
  proof -
    from that run res runDistroTests_match_source [of DistroTests 0 fs lsb os "(False, zeroDistro)" called d]
    obtain t where "t \<in> set DistroTests" "t fs lsb os = Inr (True, d)" by auto
    from literal_DistroTests [OF this] show ?thesis .
  qed
  from r lit show "ID r \<noteq> []" by (cases w) (simp_all add: BestGuess_ID)
  assume "\<not> HasPrefix (lookup os ''PRETTY_NAME'') '' '' \<or> lookup os ''NAME'' \<noteq> []"
  from BestGuess_Name [OF this] r lit show "Name r \<noteq> []" by (cases w) simp_all
qed

end
